theory Spec2Isabelle
  imports Complex_Main "HOL-Library.Sublist" "HOL-Library.Char_ord" "HOL-Library.List_Lexorder"
begin

section \<open>Numbers\<close>

text \<open>
  The program computes on JavaScript numbers, which are IEEE 754 binary64 values.  A
  number is modelled as the real it denotes, and each arithmetic operation of the source
  as the exact operation followed by the rounding \<open>fl\<close> of binary64: to the nearest value
  with a significand of 53 bits, a tie to the even significand, with gradual underflow
  down to \<open>2^-1074\<close>.  Overflow to an infinity and \<open>NaN\<close> are not modelled.  A decimal
  literal of the source, such as \<open>0.075\<close>, is the nearest binary64 value, \<open>fl (75 / 1000)\<close>.
  Comparisons, \<open>Math.round\<close> (halves up) and \<open>Math.ceil\<close> are exact on the values they are
  given.
\<close>

type_synonym number = real

text \<open>Rounding to the nearest integer, a tie to the even one.\<close>

definition rne :: "real \<Rightarrow> int" where
  "rne t =
     (let f = \<lfloor>t\<rfloor>; d = t - of_int f
      in if d < 1 / 2 then f
         else if 1 / 2 < d then f + 1
         else if even f then f else f + 1)"

text \<open>The binary exponent \<open>e\<close> of a number \<open>x\<close> other than zero, \<open>2^e \<le> |x| < 2^(e+1)\<close>:
  by halving from 1 upwards, by doubling below 1.\<close>

function expo_hi :: "real \<Rightarrow> int" where
  "expo_hi x = (if x < 2 then 0 else expo_hi (x / 2) + 1)"
  by pat_completeness auto
termination
proof (relation "measure (\<lambda>x. nat \<lceil>x\<rceil>)")
  show "wf (measure (\<lambda>x. nat \<lceil>x\<rceil>))" by simp
next
  fix x :: real
  assume "\<not> x < 2"
  then have x: "2 \<le> x" by simp
  have "x \<le> of_int \<lceil>x\<rceil>" by (rule le_of_int_ceiling)
  with x have "x / 2 \<le> of_int \<lceil>x\<rceil> - 1" by linarith
  then have "x / 2 \<le> of_int (\<lceil>x\<rceil> - 1)" by simp
  then have "\<lceil>x / 2\<rceil> \<le> \<lceil>x\<rceil> - 1" by (rule ceiling_le)
  moreover have "0 < \<lceil>x\<rceil>" using x by linarith
  ultimately have "nat \<lceil>x / 2\<rceil> < nat \<lceil>x\<rceil>" by linarith
  then show "(x / 2, x) \<in> measure (\<lambda>x. nat \<lceil>x\<rceil>)"
    by simp
qed

function expo_lo :: "real \<Rightarrow> int" where
  "expo_lo x = (if x \<le> 0 \<or> 1 \<le> x then 0 else expo_lo (2 * x) - 1)"
  by pat_completeness auto
termination
proof (relation "measure (\<lambda>x. nat \<lceil>1 / x\<rceil>)")
  show "wf (measure (\<lambda>x. nat \<lceil>1 / x\<rceil>))" by simp
next
  fix x :: real
  assume "\<not> (x \<le> 0 \<or> 1 \<le> x)"
  then have x: "0 < x" "x < 1" by simp_all
  then have y: "1 < 1 / x" by simp
  have up: "1 / x \<le> of_int \<lceil>1 / x\<rceil>" by (rule le_of_int_ceiling)
  with y have c: "2 \<le> \<lceil>1 / x\<rceil>" by linarith
  have "1 / (2 * x) = (1 / x) / 2" by simp
  also have "\<dots> \<le> of_int \<lceil>1 / x\<rceil> / 2" using up by (simp add: divide_right_mono)
  also have "\<dots> \<le> of_int \<lceil>1 / x\<rceil> - 1" using c by linarith
  also have "\<dots> = of_int (\<lceil>1 / x\<rceil> - 1)" by simp
  finally have "\<lceil>1 / (2 * x)\<rceil> \<le> \<lceil>1 / x\<rceil> - 1" by (rule ceiling_le)
  with c have "nat \<lceil>1 / (2 * x)\<rceil> < nat \<lceil>1 / x\<rceil>" by linarith
  then show "(2 * x, x) \<in> measure (\<lambda>x. nat \<lceil>1 / x\<rceil>)"
    by simp
qed

declare expo_hi.simps [simp del] expo_lo.simps [simp del]

definition expo :: "real \<Rightarrow> int" where
  "expo x = (if 1 \<le> \<bar>x\<bar> then expo_hi \<bar>x\<bar> else expo_lo \<bar>x\<bar>)"

text \<open>The rounding of binary64: the unit in the last place of \<open>x\<close> is \<open>2^q\<close> with
  \<open>q = max (e - 52) (-1074)\<close>, and \<open>x\<close> is rounded to the nearest multiple of it.\<close>

definition fl :: "real \<Rightarrow> number" where
  "fl x = (let q = max (expo x - 52) (- 1074) in of_int (rne (x / 2 powi q)) * 2 powi q)"

text \<open>The operators \<open>+\<close>, \<open>-\<close>, \<open>*\<close> and \<open>/\<close> of the source.\<close>

definition fadd :: "number \<Rightarrow> number \<Rightarrow> number" where
  "fadd x y = fl (x + y)"

definition fsub :: "number \<Rightarrow> number \<Rightarrow> number" where
  "fsub x y = fl (x - y)"

definition fmul :: "number \<Rightarrow> number \<Rightarrow> number" where
  "fmul x y = fl (x * y)"

definition fdiv :: "number \<Rightarrow> number \<Rightarrow> number" where
  "fdiv x y = fl (x / y)"

definition math_round :: "number \<Rightarrow> number" where
  "math_round x = of_int \<lfloor>x + 1 / 2\<rfloor>"

definition math_ceil :: "number \<Rightarrow> number" where
  "math_ceil x = of_int \<lceil>x\<rceil>"

section \<open>Percentile engine (metrics/latency.ts)\<close>

text \<open>
  The durations are whole milliseconds.  The rank \<open>(p / 100) * n\<close>, the sum and the mean
  of this section are computed on the exact reals.
\<close>

record PercentileStats =
  p50Ms :: number
  p75Ms :: number
  p95Ms :: number
  p99Ms :: number
  minMs :: number
  maxMs :: number
  meanMs :: number
  sampleCount :: nat

text \<open>The inner function \<open>percentile\<close> of \<open>computePercentiles\<close>; \<open>sortedArr\<close> (the source's \<open>sorted\<close>) and \<open>n\<close> are
  the variables it closes over.\<close>

definition percentile :: "number list \<Rightarrow> number \<Rightarrow> number" where
  "percentile sortedArr p =
     (let n = length sortedArr in
      if n = 1 then sortedArr ! 0
      else
        let rank = \<lceil>(p / 100) * real n\<rceil> - 1;
            clamped = max 0 (min (int n - 1) rank)
        in sortedArr ! nat clamped)"

definition computePercentiles :: "number list \<Rightarrow> PercentileStats option" where
  "computePercentiles durationsMs =
     (if length durationsMs = 0 then None
      else
        let sortedArr = sort durationsMs;
            n = length sortedArr;
            sum = foldl (\<lambda>acc v. acc + v) 0 sortedArr
        in Some \<lparr>p50Ms = percentile sortedArr 50,
                  p75Ms = percentile sortedArr 75,
                  p95Ms = percentile sortedArr 95,
                  p99Ms = percentile sortedArr 99,
                  minMs = sortedArr ! 0,
                  maxMs = sortedArr ! (n - 1),
                  meanMs = math_round (sum / real n),
                  sampleCount = n\<rparr>)"


section \<open>Cost model (metrics/cost.ts)\<close>

record PricingTier =
  inputPer1M :: number
  outputPer1M :: number

text \<open>The table \<open>PRICING\<close> has exactly the two keys \<open>'gemini-2.5-pro'\<close> and
  \<open>'gemini-2.5-flash'\<close>, so it is a record of two tiers.\<close>

record PricingTable =
  gemini_2_5_pro :: PricingTier
  gemini_2_5_flash :: PricingTier

text \<open>\<open>envFloat\<close> reads the process environment; \<open>parseFloat\<close> is the host's, with
  \<open>None\<close> for \<open>NaN\<close>.  An unset or empty variable and an unparsable one give the fallback.\<close>

definition envFloat ::
  "(string \<Rightarrow> number option) \<Rightarrow> (string \<rightharpoonup> string) \<Rightarrow> string \<Rightarrow> number \<Rightarrow> number" where
  "envFloat parseFloat env key fallback =
     (case env key of
        None \<Rightarrow> fallback
      | Some val \<Rightarrow>
          if val = [] then fallback
          else (case parseFloat val of None \<Rightarrow> fallback | Some parsed \<Rightarrow> parsed))"

definition PRICING :: "(string \<Rightarrow> number option) \<Rightarrow> (string \<rightharpoonup> string) \<Rightarrow> PricingTable" where
  "PRICING parseFloat env =
     \<lparr>gemini_2_5_pro =
        \<lparr>inputPer1M = envFloat parseFloat env ''PRICE_INPUT_PER_1M'' (fl (75 / 1000)),
         outputPer1M = envFloat parseFloat env ''PRICE_OUTPUT_PER_1M'' (fl (30 / 100))\<rparr>,
      gemini_2_5_flash =
        \<lparr>inputPer1M = envFloat parseFloat env ''PRICE_FLASH_INPUT_PER_1M'' (fl (375 / 10000)),
         outputPer1M = envFloat parseFloat env ''PRICE_FLASH_OUTPUT_PER_1M'' (fl (15 / 100))\<rparr>\<rparr>"

text \<open>The table of a process whose environment sets none of the four variables.\<close>

definition default_table :: PricingTable where
  "default_table = PRICING (\<lambda>s. None) Map.empty"

definition DEFAULT_PRICING :: "PricingTable \<Rightarrow> PricingTier" where
  "DEFAULT_PRICING table = gemini_2_5_pro table"

text \<open>\<open>String.prototype.includes\<close>: the argument occurs somewhere in the string.\<close>

fun str_includes :: "string \<Rightarrow> string \<Rightarrow> bool" where
  "str_includes [] search = (search = [])"
| "str_includes (c # cs) search = (prefix search (c # cs) \<or> str_includes cs search)"

text \<open>\<open>!model\<close> holds for \<open>null\<close> and for the empty string.\<close>

definition pricingFor :: "PricingTable \<Rightarrow> string option \<Rightarrow> PricingTier" where
  "pricingFor table model =
     (case model of
        None \<Rightarrow> DEFAULT_PRICING table
      | Some m \<Rightarrow>
          if m = [] then DEFAULT_PRICING table
          else if str_includes m ''flash'' then gemini_2_5_flash table
          else gemini_2_5_pro table)"

definition estimateTokens :: "number \<Rightarrow> number" where
  "estimateTokens chars = math_ceil (fdiv chars 4)"

definition roundUsd :: "number \<Rightarrow> number" where
  "roundUsd v = fdiv (math_round (fmul v 1000000)) 1000000"

record LlmRow =
  prompt_chars :: "number option"
  response_chars :: "number option"
  model :: "string option"

record CostBreakdown =
  estimatedInputTokens :: number
  estimatedOutputTokens :: number
  estimatedTotalTokens :: number
  inputCostUsd :: number
  outputCostUsd :: number
  totalCostUsd :: number
  modelUsed :: "string option"

text \<open>A JavaScript \<open>Map\<close> iterates in insertion order and \<open>set\<close> on a present key keeps
  the key's place: an association list with \<open>set\<close> written accordingly.\<close>

fun map_set :: "('k \<times> 'v) list \<Rightarrow> 'k \<Rightarrow> 'v \<Rightarrow> ('k \<times> 'v) list" where
  "map_set [] k v = [(k, v)]"
| "map_set ((k', v') # m) k v =
     (if k' = k then (k, v) # m else (k', v') # map_set m k v)"

definition map_get :: "('k \<times> 'v) list \<Rightarrow> 'k \<Rightarrow> 'v option" where
  "map_get m k = map_of m k"

text \<open>The operator \<open>??\<close>.\<close>

definition nullish :: "'a option \<Rightarrow> 'a \<Rightarrow> 'a" where
  "nullish v d = (case v of None \<Rightarrow> d | Some x \<Rightarrow> x)"

text \<open>The first loop of \<open>computeCost\<close>, over the rows, with its three variables
  \<open>totalPromptChars\<close>, \<open>totalResponseChars\<close> and \<open>modelCounts\<close>.\<close>

fun sumRows ::
  "LlmRow list \<Rightarrow> number \<Rightarrow> number \<Rightarrow> (string \<times> nat) list
     \<Rightarrow> number \<times> number \<times> (string \<times> nat) list" where
  "sumRows [] totalPromptChars totalResponseChars modelCounts =
     (totalPromptChars, totalResponseChars, modelCounts)"
| "sumRows (row # rows) totalPromptChars totalResponseChars modelCounts =
     sumRows rows
       (fadd totalPromptChars (nullish (prompt_chars row) 0))
       (fadd totalResponseChars (nullish (response_chars row) 0))
       (case model row of
          None \<Rightarrow> modelCounts
        | Some m \<Rightarrow>
            if m = [] then modelCounts
            else map_set modelCounts m (nullish (map_get modelCounts m) 0 + 1))"

text \<open>The second loop, over the entries of \<open>modelCounts\<close>, with \<open>maxCount\<close> and
  \<open>dominantModel\<close>.\<close>

fun pickDominant :: "(string \<times> nat) list \<Rightarrow> nat \<Rightarrow> string option \<Rightarrow> string option" where
  "pickDominant [] maxCount dominantModel = dominantModel"
| "pickDominant ((m, count) # entries) maxCount dominantModel =
     (if count > maxCount then pickDominant entries count (Some m)
      else pickDominant entries maxCount dominantModel)"

definition computeCost :: "PricingTable \<Rightarrow> LlmRow list \<Rightarrow> CostBreakdown" where
  "computeCost table llmRows =
     (case sumRows llmRows 0 0 [] of
        (totalPromptChars, totalResponseChars, modelCounts) \<Rightarrow>
          let dominantModel = pickDominant modelCounts 0 None;
              pricing = pricingFor table dominantModel;
              inputTokens = estimateTokens totalPromptChars;
              outputTokens = estimateTokens totalResponseChars;
              inputCost = fmul (fdiv inputTokens 1000000) (inputPer1M pricing);
              outputCost = fmul (fdiv outputTokens 1000000) (outputPer1M pricing)
          in \<lparr>estimatedInputTokens = inputTokens,
              estimatedOutputTokens = outputTokens,
              estimatedTotalTokens = fadd inputTokens outputTokens,
              inputCostUsd = roundUsd inputCost,
              outputCostUsd = roundUsd outputCost,
              totalCostUsd = roundUsd (fadd inputCost outputCost),
              modelUsed = dominantModel\<rparr>)"

text \<open>What the specification names: the character totals (as the loop accumulates them,
  from 0 and in the order of the rows), the models of the rows that specify one (an empty
  identifier specifies none), and the place at which an identifier is first encountered.\<close>

definition total_prompt_chars :: "LlmRow list \<Rightarrow> number" where
  "total_prompt_chars rows = foldl (\<lambda>acc r. fadd acc (nullish (prompt_chars r) 0)) 0 rows"

definition total_response_chars :: "LlmRow list \<Rightarrow> number" where
  "total_response_chars rows = foldl (\<lambda>acc r. fadd acc (nullish (response_chars r) 0)) 0 rows"

definition specified_models :: "LlmRow list \<Rightarrow> string list" where
  "specified_models rows =
     concat (map (\<lambda>r. case model r of None \<Rightarrow> [] | Some m \<Rightarrow> if m = [] then [] else [m]) rows)"

definition first_index :: "'a list \<Rightarrow> 'a \<Rightarrow> nat" where
  "first_index xs x = length (takeWhile (\<lambda>y. y \<noteq> x) xs)"

text \<open>Two auxiliary functions: the counting of the first loop on the identifiers alone,
  and the distinct elements of a list in the order of their first occurrence.\<close>

fun countModels :: "string list \<Rightarrow> (string \<times> nat) list \<Rightarrow> (string \<times> nat) list" where
  "countModels [] modelCounts = modelCounts"
| "countModels (m # ms) modelCounts =
     countModels ms (map_set modelCounts m (nullish (map_get modelCounts m) 0 + 1))"

fun first_occ :: "'a list \<Rightarrow> 'a list" where
  "first_occ [] = []"
| "first_occ (x # xs) = x # filter (\<lambda>y. y \<noteq> x) (first_occ xs)"

section \<open>Session summaries and their comparison (metrics/aggregator.ts)\<close>

record ToolLatencyStats =
  toolName :: string
  stats :: PercentileStats
  errorRate :: number
  callCount :: nat

record SessionSummary =
  sessionId :: string
  label :: "string option"
  startedAt :: string
  endedAt :: "string option"
  durationMs :: "number option"
  toolCallCount :: nat
  llmRequestCount :: nat
  errorCount :: nat
  uniqueToolsUsed :: "string list"
  cost :: CostBreakdown
  overallLatency :: "PercentileStats option"
  toolBreakdown :: "ToolLatencyStats list"

datatype Severity = warning | critical

record RegressionFlag =
  metric :: string
  baselineValue :: number
  compareValue :: number
  deltaPct :: number
  severity :: Severity

record SessionComparison =
  baselineSessionId :: string
  compareSessionId :: string
  baselineLabel :: "string option"
  compareLabel :: "string option"
  costDeltaUsd :: number
  costDeltaPct :: number
  durationDeltaMs :: "number option"
  durationDeltaPct :: "number option"
  toolCallDelta :: int
  p95LatencyDeltaMs :: "number option"
  p95LatencyDeltaPct :: "number option"
  regressions :: "RegressionFlag list"

definition p95DeltaPct :: "number \<Rightarrow> number \<Rightarrow> number" where
  "p95DeltaPct baseline compare =
     (if baseline = 0 then 0 else fmul (fdiv (fsub compare baseline) baseline) 100)"

text \<open>The inner function \<open>maybeFlag\<close> pushes onto the array \<open>regressions\<close> it closes over;
  here it takes the array and returns it.\<close>

definition maybeFlag ::
  "RegressionFlag list \<Rightarrow> string \<Rightarrow> number \<Rightarrow> number \<Rightarrow> number \<Rightarrow> RegressionFlag list" where
  "maybeFlag regs metricName baseVal cmpVal deltaPctVal =
     (if deltaPctVal > 50 then
        regs @ [\<lparr>metric = metricName, baselineValue = baseVal, compareValue = cmpVal,
                 deltaPct = deltaPctVal, severity = critical\<rparr>]
      else if deltaPctVal > 20 then
        regs @ [\<lparr>metric = metricName, baselineValue = baseVal, compareValue = cmpVal,
                 deltaPct = deltaPctVal, severity = warning\<rparr>]
      else regs)"

text \<open>In \<open>compareSessionSummaries\<close> the condition \<open>baseline.durationMs\<close> is the truth value
  of a number or \<open>null\<close>: neither \<open>null\<close> nor zero.  The number of tool calls is a count,
  so their difference is an integer.\<close>

definition compareSessionSummaries :: "SessionSummary \<Rightarrow> SessionSummary \<Rightarrow> SessionComparison" where
  "compareSessionSummaries baseline compare =
     (let costDelta = fsub (totalCostUsd (cost compare)) (totalCostUsd (cost baseline));
          costDeltaPctVal =
            (if totalCostUsd (cost baseline) > 0
             then fmul (fdiv costDelta (totalCostUsd (cost baseline))) 100
             else 0);
          durationDelta =
            (case (durationMs baseline, durationMs compare) of
               (Some b, Some c) \<Rightarrow> Some (fsub c b)
             | _ \<Rightarrow> None);
          durationDeltaPctVal =
            (case (durationDelta, durationMs baseline) of
               (Some d, Some b) \<Rightarrow> if b > 0 then Some (fmul (fdiv d b) 100) else None
             | _ \<Rightarrow> None);
          baseP95 = map_option p95Ms (overallLatency baseline);
          cmpP95 = map_option p95Ms (overallLatency compare);
          p95Delta =
            (case (baseP95, cmpP95) of
               (Some b, Some c) \<Rightarrow> Some (fsub c b)
             | _ \<Rightarrow> None);
          p95DeltaPctVal =
            (case (p95Delta, baseP95, cmpP95) of
               (Some d, Some b, Some c) \<Rightarrow> Some (p95DeltaPct b c)
             | _ \<Rightarrow> None);
          regs0 = [];
          regs1 =
            (if costDeltaPctVal > 0
             then maybeFlag regs0 ''cost_usd'' (totalCostUsd (cost baseline))
                    (totalCostUsd (cost compare)) costDeltaPctVal
             else regs0);
          regs2 =
            (case (durationDeltaPctVal, durationMs baseline) of
               (Some pct, Some b) \<Rightarrow>
                 if pct > 0 \<and> b \<noteq> 0
                 then maybeFlag regs1 ''session_duration_ms'' b (nullish (durationMs compare) 0) pct
                 else regs1
             | _ \<Rightarrow> regs1);
          regs3 =
            (case (p95DeltaPctVal, baseP95, cmpP95) of
               (Some pct, Some b, Some c) \<Rightarrow>
                 if pct > 0 then maybeFlag regs2 ''p95_tool_latency_ms'' b c pct else regs2
             | _ \<Rightarrow> regs2)
      in \<lparr>baselineSessionId = sessionId baseline,
          compareSessionId = sessionId compare,
          baselineLabel = label baseline,
          compareLabel = label compare,
          costDeltaUsd = roundUsd costDelta,
          costDeltaPct = fdiv (math_round (fmul costDeltaPctVal 10)) 10,
          durationDeltaMs = durationDelta,
          durationDeltaPct =
            map_option (\<lambda>v. fdiv (math_round (fmul v 10)) 10) durationDeltaPctVal,
          toolCallDelta = int (toolCallCount compare) - int (toolCallCount baseline),
          p95LatencyDeltaMs = p95Delta,
          p95LatencyDeltaPct =
            map_option (\<lambda>v. fdiv (math_round (fmul v 10)) 10) p95DeltaPctVal,
          regressions = regs3\<rparr>)"

text \<open>The table of the specification: no flag up to 20 percent, a warning above 20 and up
  to 50 percent, critical above 50 percent; and the percentage deltas as the code computes
  them, unrounded, each operation in binary64.\<close>

definition severity_of_delta :: "number \<Rightarrow> Severity option" where
  "severity_of_delta d =
     (if d \<le> 20 then None else if d \<le> 50 then Some warning else Some critical)"

definition flags_for :: "string \<Rightarrow> number \<Rightarrow> number \<Rightarrow> number \<Rightarrow> RegressionFlag list" where
  "flags_for metricName baseVal cmpVal d =
     (case severity_of_delta d of
        None \<Rightarrow> []
      | Some s \<Rightarrow> [\<lparr>metric = metricName, baselineValue = baseVal, compareValue = cmpVal,
                    deltaPct = d, severity = s\<rparr>])"

definition computed_delta_pct :: "number \<Rightarrow> number \<Rightarrow> number" where
  "computed_delta_pct baseVal cmpVal = fmul (fdiv (fsub cmpVal baseVal) baseVal) 100"

section \<open>The event store (db/queries)\<close>

text \<open>
  The tables of the SQLite database, each a list of rows in insertion order.  The fields
  of the row types carry a prefix, since several tables and result rows of the source
  share the names \<open>id\<close>, \<open>model\<close> and \<open>label\<close>.  The column \<open>event_type\<close> admits the eight
  values of its \<open>CHECK\<close> constraint only.
\<close>

datatype EventType =
  SESSION_START | SESSION_END | TOOL_START | TOOL_END
  | LLM_REQUEST | LLM_RESPONSE | ERROR | BUDGET_WARNING

record SessionRow =
  sess_id :: string
  sess_label :: "string option"
  sess_model :: "string option"
  sess_started_at :: string
  sess_ended_at :: "string option"
  sess_metadata_json :: string

record EventRow =
  ev_id :: string
  ev_session_id :: string
  ev_event_type :: EventType
  ev_tool_name :: "string option"
  ev_model :: "string option"
  ev_prompt_chars :: "number option"
  ev_response_chars :: "number option"
  ev_duration_ms :: "number option"
  ev_error_message :: "string option"
  ev_metadata_json :: string
  ev_recorded_at :: string

record BudgetRow =
  budget_id :: nat
  max_per_session_usd :: number
  max_per_day_usd :: number
  alert_threshold_pct :: number
  updated_at :: string

record Database =
  sessions :: "SessionRow list"
  events :: "EventRow list"
  budget_config :: BudgetRow

text \<open>A statement that violates a constraint of the schema throws.\<close>

datatype StoreError = PrimaryKeyViolation | ForeignKeyViolation

subsection \<open>queries/sessions.ts\<close>

definition sessions_getById :: "Database \<Rightarrow> string \<Rightarrow> SessionRow option" where
  "sessions_getById db ident = find (\<lambda>s. sess_id s = ident) (sessions db)"

definition sessions_end :: "Database \<Rightarrow> string \<Rightarrow> string \<Rightarrow> Database" where
  "sessions_end db ident endedAtVal =
     db\<lparr>sessions :=
          map (\<lambda>s. if sess_id s = ident then s\<lparr>sess_ended_at := Some endedAtVal\<rparr> else s)
            (sessions db)\<rparr>"

subsection \<open>queries/events.ts\<close>

text \<open>\<open>insert\<close> appends the row; the primary key \<open>id\<close> and the reference
  \<open>session_id\<close> to \<open>sessions(id)\<close> are checked (\<open>foreign_keys = ON\<close>).\<close>

definition events_insert :: "Database \<Rightarrow> EventRow \<Rightarrow> StoreError + Database" where
  "events_insert db row =
     (if ev_id row \<in> set (map ev_id (events db)) then Inl PrimaryKeyViolation
      else if ev_session_id row \<notin> set (map sess_id (sessions db)) then Inl ForeignKeyViolation
      else Inr (db\<lparr>events := events db @ [row]\<rparr>))"

record ToolDurationRow =
  tool_name :: string
  duration_ms :: number

record ToolRow = ToolDurationRow +
  error :: number

text \<open>\<open>ORDER BY recorded_at ASC\<close> compares the timestamps as text.\<close>

definition toolDurations :: "Database \<Rightarrow> string \<Rightarrow> ToolDurationRow list" where
  "toolDurations db sessionIdent =
     List.map_filter
       (\<lambda>e. case (ev_tool_name e, ev_duration_ms e) of
               (Some t, Some d) \<Rightarrow> Some \<lparr>tool_name = t, duration_ms = d\<rparr>
             | _ \<Rightarrow> None)
       (sort_key ev_recorded_at
          (filter (\<lambda>e. ev_session_id e = sessionIdent \<and> ev_event_type e = TOOL_END)
             (events db)))"

definition allToolDurations :: "Database \<Rightarrow> ToolRow list" where
  "allToolDurations db =
     List.map_filter
       (\<lambda>e. case (ev_tool_name e, ev_duration_ms e) of
               (Some t, Some d) \<Rightarrow>
                 Some \<lparr>tool_name = t, duration_ms = d,
                       error = (if ev_error_message e \<noteq> None then 1 else 0)\<rparr>
             | _ \<Rightarrow> None)
       (filter (\<lambda>e. ev_event_type e = TOOL_END) (events db))"

text \<open>The queries below that select by \<open>session_id\<close> without an \<open>ORDER BY\<close> are answered
  from the index on \<open>(session_id, recorded_at)\<close>: the rows come by \<open>recorded_at\<close>, rows of
  one timestamp in insertion order.\<close>

definition llmChars :: "Database \<Rightarrow> string \<Rightarrow> LlmRow list" where
  "llmChars db sessionIdent =
     map (\<lambda>e. \<lparr>prompt_chars = ev_prompt_chars e, response_chars = ev_response_chars e,
                model = ev_model e\<rparr>)
       (sort_key ev_recorded_at
          (filter (\<lambda>e. ev_session_id e = sessionIdent
                       \<and> (ev_event_type e = LLM_REQUEST \<or> ev_event_type e = LLM_RESPONSE))
             (events db)))"

definition countByType :: "Database \<Rightarrow> string \<Rightarrow> EventType \<Rightarrow> nat" where
  "countByType db sessionIdent eventType =
     length (filter (\<lambda>e. ev_session_id e = sessionIdent \<and> ev_event_type e = eventType)
               (events db))"

definition errorCountOf :: "Database \<Rightarrow> string \<Rightarrow> nat" where
  "errorCountOf db sessionIdent =
     length (filter (\<lambda>e. ev_session_id e = sessionIdent \<and> ev_event_type e = ERROR)
               (events db))"

text \<open>\<open>SELECT DISTINCT\<close> lists each tool name where it first occurs.\<close>

definition uniqueTools :: "Database \<Rightarrow> string \<Rightarrow> string list" where
  "uniqueTools db sessionIdent =
     first_occ (List.map_filter ev_tool_name
                  (sort_key ev_recorded_at
                     (filter (\<lambda>e. ev_session_id e = sessionIdent) (events db))))"

record DailyChars =
  promptChars :: number
  responseChars :: number

text \<open>\<open>dailyLlmChars\<close> joins each event with its session and keeps those whose session
  started on the given date; \<open>sql_date\<close> is SQLite's \<open>date()\<close>, \<open>None\<close> for \<open>NULL\<close>.  A sum
  over no value is \<open>NULL\<close> and coalesces to 0.  The two columns are \<open>INTEGER\<close>: SQLite
  adds them as integers, without rounding.\<close>

definition dailyLlmChars :: "(string \<Rightarrow> string option) \<Rightarrow> Database \<Rightarrow> string \<Rightarrow> DailyChars" where
  "dailyLlmChars sql_date db day =
     (let rows =
        filter (\<lambda>e. (ev_event_type e = LLM_REQUEST \<or> ev_event_type e = LLM_RESPONSE)
                  \<and> (case sessions_getById db (ev_session_id e) of
                        None \<Rightarrow> False
                      | Some s \<Rightarrow>
                          (case (sql_date (sess_started_at s), sql_date day) of
                             (Some a, Some b) \<Rightarrow> a = b
                           | _ \<Rightarrow> False)))
          (events db)
      in \<lparr>promptChars = sum_list (map (\<lambda>e. nullish (ev_prompt_chars e) 0) rows),
          responseChars = sum_list (map (\<lambda>e. nullish (ev_response_chars e) 0) rows)\<rparr>)"

text \<open>On an ISO 8601 timestamp and on a date, \<open>date()\<close> is the first ten characters.\<close>

definition iso_date :: "string \<Rightarrow> string option" where
  "iso_date s = Some (take 10 s)"

subsection \<open>queries/budget.ts\<close>

definition budget_get :: "Database \<Rightarrow> BudgetRow" where
  "budget_get db = budget_config db"

section \<open>Per-tool statistics and the session aggregator\<close>

record ToolBucket =
  durations :: "number list"
  errors :: nat

text \<open>The first loop of \<open>computeToolLatencyStats\<close>, over the rows, fills the map
  \<open>grouped\<close>; \<open>row.error\<close> is true when it is not zero.\<close>

fun groupRows :: "ToolRow list \<Rightarrow> (string \<times> ToolBucket) list \<Rightarrow> (string \<times> ToolBucket) list" where
  "groupRows [] grouped = grouped"
| "groupRows (row # rows) grouped =
     (let bucket = nullish (map_get grouped (tool_name row)) \<lparr>durations = [], errors = 0\<rparr>;
          pushed = bucket\<lparr>durations := durations bucket @ [duration_ms row]\<rparr>;
          counted = (if error row \<noteq> 0 then pushed\<lparr>errors := errors pushed + 1\<rparr> else pushed)
      in groupRows rows (map_set grouped (tool_name row) counted))"

text \<open>The second loop, over the entries of \<open>grouped\<close>, fills the array \<open>results\<close>.\<close>

fun collectStats ::
  "(string \<times> ToolBucket) list \<Rightarrow> ToolLatencyStats list \<Rightarrow> ToolLatencyStats list" where
  "collectStats [] results = results"
| "collectStats ((name, bucket) # entries) results =
     (case computePercentiles (durations bucket) of
        None \<Rightarrow> collectStats entries results
      | Some st \<Rightarrow>
          collectStats entries
            (results @
               [\<lparr>toolName = name,
                 stats = st,
                 errorRate = (if length (durations bucket) > 0
                              then fdiv (real (errors bucket)) (real (length (durations bucket)))
                              else 0),
                 callCount = length (durations bucket)\<rparr>]))"

text \<open>The final sort is by call count, descending; the sort of the host is stable.\<close>

definition computeToolLatencyStats :: "ToolRow list \<Rightarrow> ToolLatencyStats list" where
  "computeToolLatencyStats rows =
     sort_key (\<lambda>r. - int (callCount r)) (collectStats (groupRows rows []) [])"

text \<open>\<open>getTime\<close> is \<open>new Date(s).getTime()\<close>; a string is true when it is neither \<open>null\<close>
  nor empty.\<close>

definition buildSessionSummary ::
  "(string \<Rightarrow> number) \<Rightarrow> PricingTable \<Rightarrow> Database \<Rightarrow> string \<Rightarrow> SessionSummary option" where
  "buildSessionSummary getTime table db sessionIdent =
     (case sessions_getById db sessionIdent of
        None \<Rightarrow> None
      | Some session \<Rightarrow>
          let llmRows = llmChars db sessionIdent;
              toolDurationRows = toolDurations db sessionIdent;
              errorCountVal = errorCountOf db sessionIdent;
              uniqueToolNames = uniqueTools db sessionIdent;
              toolCallCountVal = countByType db sessionIdent TOOL_END;
              llmRequestCountVal = countByType db sessionIdent LLM_REQUEST;
              costVal = computeCost table llmRows;
              allDurations = map duration_ms toolDurationRows;
              overallLatencyVal = computePercentiles allDurations;
              allToolRows =
                map (\<lambda>r. \<lparr>tool_name = tool_name r, duration_ms = duration_ms r, error = 0\<rparr>)
                  toolDurationRows;
              toolBreakdownVal = computeToolLatencyStats allToolRows;
              durationMsVal =
                (case sess_ended_at session of
                   None \<Rightarrow> None
                 | Some ended \<Rightarrow>
                     if sess_started_at session \<noteq> [] \<and> ended \<noteq> []
                     then Some (fsub (getTime ended) (getTime (sess_started_at session)))
                     else None)
          in Some \<lparr>sessionId = sess_id session,
                   label = sess_label session,
                   startedAt = sess_started_at session,
                   endedAt = sess_ended_at session,
                   durationMs = durationMsVal,
                   toolCallCount = toolCallCountVal,
                   llmRequestCount = llmRequestCountVal,
                   errorCount = errorCountVal,
                   uniqueToolsUsed = uniqueToolNames,
                   cost = costVal,
                   overallLatency = overallLatencyVal,
                   toolBreakdown = toolBreakdownVal\<rparr>)"

section \<open>Ending a session (tools/end\_session.ts)\<close>

text \<open>
  \<open>handleEndSession\<close> returns one of three messages; the third carries the formatted
  summary when there is one.  The message is represented by what it is built from.
  \<open>now\<close> is \<open>new Date().toISOString()\<close> and \<open>eventIdent\<close> is \<open>generateEventId()\<close>.  The
  two writes run in one transaction: a constraint violation throws, the transaction is
  rolled back and the database is as it was.
\<close>

datatype EndSessionResult =
  SessionNotFound string
  | SessionAlreadyEnded string string
  | SessionEnded "SessionSummary option"

definition transaction :: "(Database \<Rightarrow> StoreError + Database) \<Rightarrow> Database \<Rightarrow> StoreError + Database" where
  "transaction fn db = fn db"

text \<open>The closure that \<open>handleEndSession\<close> passes to \<open>db.transaction\<close>.\<close>

definition endSessionWrites :: "string \<Rightarrow> string \<Rightarrow> string \<Rightarrow> Database \<Rightarrow> StoreError + Database" where
  "endSessionWrites session_id now eventIdent db =
     events_insert (sessions_end db session_id now)
       \<lparr>ev_id = eventIdent, ev_session_id = session_id, ev_event_type = SESSION_END,
        ev_tool_name = None, ev_model = None, ev_prompt_chars = None,
        ev_response_chars = None, ev_duration_ms = None, ev_error_message = None,
        ev_metadata_json = ''{}'', ev_recorded_at = now\<rparr>"

text \<open>The test \<open>session.ended_at\<close> is true for a string that is neither \<open>null\<close> nor
  empty; in both other cases the session is ended now.\<close>

definition handleEndSession ::
  "(string \<Rightarrow> number) \<Rightarrow> PricingTable \<Rightarrow> string \<Rightarrow> string \<Rightarrow> string \<Rightarrow> Database
     \<Rightarrow> (StoreError + EndSessionResult) \<times> Database" where
  "handleEndSession getTime table now eventIdent session_id db =
     (case sessions_getById db session_id of
        None \<Rightarrow> (Inr (SessionNotFound session_id), db)
      | Some session \<Rightarrow>
          (case (case sess_ended_at session of
                   None \<Rightarrow> None
                 | Some ended \<Rightarrow> if ended \<noteq> [] then Some ended else None) of
             Some ended \<Rightarrow> (Inr (SessionAlreadyEnded session_id ended), db)
           | None \<Rightarrow>
               (case transaction (endSessionWrites session_id now eventIdent) db of
                  Inl err \<Rightarrow> (Inl err, db)
                | Inr db' \<Rightarrow>
                    (Inr (SessionEnded (buildSessionSummary getTime table db' session_id)), db'))))"

section \<open>The budget check (tools/record\_event.ts)\<close>

text \<open>
  \<open>checkBudget\<close> returns a warning message or \<open>null\<close>.  The message is represented by
  the three numbers it prints: the cost, the rounded percentage of the cap, and the cap.
  The model also returns the queries the call made on the store, in order.  \<open>today\<close> is
  \<open>new Date().toISOString().slice(0, 10)\<close>.
\<close>

datatype BudgetWarning =
  SessionBudgetWarning number number number
  | DailyBudgetWarning number number number

datatype StoreQuery = QBudgetGet | QLlmChars string | QDailyLlmChars string

definition checkBudget ::
  "PricingTable \<Rightarrow> (string \<Rightarrow> string option) \<Rightarrow> string \<Rightarrow> string \<Rightarrow> Database
     \<Rightarrow> BudgetWarning option \<times> StoreQuery list" where
  "checkBudget table sql_date today sessionIdent db =
     (let config = budget_get db in
      if max_per_session_usd config \<le> 0 \<and> max_per_day_usd config \<le> 0
      then (None, [QBudgetGet])
      else
        let llmRows = llmChars db sessionIdent;
            sessionCost = computeCost table llmRows
        in
          if max_per_session_usd config > 0
             \<and> totalCostUsd sessionCost
                 \<ge> fmul (max_per_session_usd config) (fdiv (alert_threshold_pct config) 100)
          then (Some (SessionBudgetWarning (totalCostUsd sessionCost)
                        (math_round
                           (fmul (fdiv (totalCostUsd sessionCost) (max_per_session_usd config)) 100))
                        (max_per_session_usd config)),
                [QBudgetGet, QLlmChars sessionIdent])
          else if max_per_day_usd config > 0 then
            let dailyChars = dailyLlmChars sql_date db today;
                dailyCost = computeCost table
                  [\<lparr>prompt_chars = Some (promptChars dailyChars), response_chars = None,
                    model = None\<rparr>,
                   \<lparr>prompt_chars = None, response_chars = Some (responseChars dailyChars),
                    model = None\<rparr>]
            in
              if totalCostUsd dailyCost
                   \<ge> fmul (max_per_day_usd config) (fdiv (alert_threshold_pct config) 100)
              then (Some (DailyBudgetWarning (totalCostUsd dailyCost)
                            (math_round
                               (fmul (fdiv (totalCostUsd dailyCost) (max_per_day_usd config)) 100))
                            (max_per_day_usd config)),
                    [QBudgetGet, QLlmChars sessionIdent, QDailyLlmChars today])
              else (None, [QBudgetGet, QLlmChars sessionIdent, QDailyLlmChars today])
          else (None, [QBudgetGet, QLlmChars sessionIdent]))"

text \<open>The two checks as the specification words them: the cost of the session, and the
  cost of the day's characters, against the threshold fraction of the cap that applies,
  \<open>cap * (pct / 100)\<close> as the code computes it in binary64.\<close>

definition session_cost :: "PricingTable \<Rightarrow> Database \<Rightarrow> string \<Rightarrow> number" where
  "session_cost table db sessionIdent = totalCostUsd (computeCost table (llmChars db sessionIdent))"

definition daily_cost :: "PricingTable \<Rightarrow> (string \<Rightarrow> string option) \<Rightarrow> Database \<Rightarrow> string \<Rightarrow> number" where
  "daily_cost table sql_date db day =
     totalCostUsd (computeCost table
       [\<lparr>prompt_chars = Some (promptChars (dailyLlmChars sql_date db day)),
         response_chars = None, model = None\<rparr>,
        \<lparr>prompt_chars = None,
         response_chars = Some (responseChars (dailyLlmChars sql_date db day)),
         model = None\<rparr>])"

definition session_threshold_crossed :: "PricingTable \<Rightarrow> Database \<Rightarrow> string \<Rightarrow> bool" where
  "session_threshold_crossed table db sessionIdent \<longleftrightarrow>
     max_per_session_usd (budget_config db) > 0
     \<and> session_cost table db sessionIdent
         \<ge> fmul (max_per_session_usd (budget_config db))
              (fdiv (alert_threshold_pct (budget_config db)) 100)"

definition day_threshold_crossed ::
  "PricingTable \<Rightarrow> (string \<Rightarrow> string option) \<Rightarrow> Database \<Rightarrow> string \<Rightarrow> bool" where
  "day_threshold_crossed table sql_date db day \<longleftrightarrow>
     max_per_day_usd (budget_config db) > 0
     \<and> daily_cost table sql_date db day
         \<ge> fmul (max_per_day_usd (budget_config db))
              (fdiv (alert_threshold_pct (budget_config db)) 100)"

section \<open>Properties of the rounding\<close>

text \<open>
  \<open>fl\<close> returns a value with a significand of at most 53 bits and an exponent from
  \<open>-1074\<close> on, the nearest such value to its argument; hence it leaves such values as they
  are, integers up to \<open>2^53\<close> among them, and it is monotone.
\<close>

lemma rne_cases:
  "(rne t = \<lfloor>t\<rfloor> \<and> t - of_int \<lfloor>t\<rfloor> \<le> 1 / 2) \<or> (rne t = \<lfloor>t\<rfloor> + 1 \<and> 1 / 2 \<le> t - of_int \<lfloor>t\<rfloor>)"
  by (auto simp: rne_def Let_def)

lemma rne_nearest: "\<bar>t - of_int (rne t)\<bar> \<le> \<bar>t - of_int k\<bar>"
proof -
  define F :: real where "F = of_int \<lfloor>t\<rfloor>"
  define K :: real where "K = of_int k"
  define R :: real where "R = of_int (rne t)"
  have f: "F \<le> t" "t < F + 1" unfolding F_def by linarith+
  have "k \<le> \<lfloor>t\<rfloor> \<or> \<lfloor>t\<rfloor> + 1 \<le> k" by linarith
  then have k: "K \<le> F \<or> F + 1 \<le> K"
    unfolding K_def F_def by (metis of_int_le_iff of_int_add of_int_1)
  have r: "(R = F \<and> t - F \<le> 1 / 2) \<or> (R = F + 1 \<and> 1 / 2 \<le> t - F)"
    using rne_cases[of t] unfolding R_def F_def by auto
  have "\<bar>t - R\<bar> \<le> \<bar>t - K\<bar>"
    using f k r by (elim disjE conjE) linarith+
  then show ?thesis unfolding R_def K_def .
qed

lemma rne_of_int: "rne (of_int k) = k"
  using rne_nearest[of "of_int k" k] by simp

lemma rne_bound:
  assumes "\<bar>t\<bar> \<le> of_int N"
  shows "\<bar>rne t\<bar> \<le> N"
proof -
  define R :: real where "R = of_int (rne t)"
  define M :: real where "M = of_int N"
  have 1: "\<bar>t - R\<bar> \<le> \<bar>t - M\<bar>" unfolding R_def M_def by (rule rne_nearest)
  have 2: "\<bar>t - R\<bar> \<le> \<bar>t - (- M)\<bar>"
    using rne_nearest[of t "- N"] unfolding R_def M_def by simp
  have 3: "\<bar>t\<bar> \<le> M" using assms unfolding M_def .
  have "\<bar>R\<bar> \<le> M" using 1 2 3 by linarith
  then have "\<bar>(of_int (rne t) :: real)\<bar> \<le> of_int N" unfolding R_def M_def .
  then have "(of_int \<bar>rne t\<bar> :: real) \<le> of_int N" by simp
  then show ?thesis by (simp only: of_int_le_iff)
qed

lemma expo_hi_bounds: "1 \<le> x \<Longrightarrow> 2 powi expo_hi x \<le> x \<and> x < 2 powi (expo_hi x + 1)"
proof (induction x rule: expo_hi.induct)
  case (1 x)
  show ?case
  proof (cases "x < 2")
    case True
    then have "expo_hi x = 0" by (subst expo_hi.simps) simp
    with True "1.prems" show ?thesis by simp
  next
    case False
    define e where "e = expo_hi (x / 2)"
    have "2 powi e \<le> x / 2 \<and> x / 2 < 2 powi (e + 1)"
      using "1.IH" False unfolding e_def by simp
    moreover have "expo_hi x = e + 1"
      using False unfolding e_def by (subst expo_hi.simps) simp
    moreover have "(2::real) powi (e + 1) = 2 * 2 powi e"
      and "(2::real) powi (e + 1 + 1) = 4 * 2 powi e"
      by (simp_all add: power_int_add)
    ultimately show ?thesis by simp
  qed
qed

lemma expo_lo_bounds:
  "0 < x \<Longrightarrow> x < 1 \<Longrightarrow> 2 powi expo_lo x \<le> x \<and> x < 2 powi (expo_lo x + 1)"
proof (induction x rule: expo_lo.induct)
  case (1 x)
  define e where "e = expo_lo (2 * x)"
  have step: "expo_lo x = e - 1"
    using "1.prems" unfolding e_def by (subst expo_lo.simps) simp
  have pw: "(2::real) powi (e - 1) = 2 powi e / 2" "(2::real) powi (e - 1 + 1) = 2 powi e"
    "(2::real) powi (e + 1) = 2 * 2 powi e"
    by (simp_all add: power_int_diff power_int_add)
  show ?case
  proof (cases "2 * x < 1")
    case True
    then have "2 powi e \<le> 2 * x \<and> 2 * x < 2 powi (e + 1)"
      using "1.IH" "1.prems" unfolding e_def by simp
    then show ?thesis
      unfolding step pw by simp
  next
    case False
    then have "e = 0" unfolding e_def by (subst expo_lo.simps) simp
    with False "1.prems" show ?thesis
      unfolding step pw by simp
  qed
qed

lemma expo_bounds:
  assumes "x \<noteq> 0"
  shows "2 powi expo x \<le> \<bar>x\<bar> \<and> \<bar>x\<bar> < 2 powi (expo x + 1)"
proof (cases "1 \<le> \<bar>x\<bar>")
  case True
  then show ?thesis using expo_hi_bounds[of "\<bar>x\<bar>"] by (simp add: expo_def)
next
  case False
  then show ?thesis using expo_lo_bounds[of "\<bar>x\<bar>"] assms by (simp add: expo_def)
qed

lemma fl_0: "fl 0 = 0"
  by (simp add: fl_def rne_def)

lemma fl_grid_nearest:
  "\<bar>x - fl x\<bar> \<le> \<bar>x - of_int n * 2 powi max (expo x - 52) (- 1074)\<bar>"
proof -
  define p :: real where "p = 2 powi max (expo x - 52) (- 1074)"
  have p: "0 < p" by (simp add: p_def)
  have scale: "\<bar>x - c * p\<bar> = p * \<bar>x / p - c\<bar>" for c
  proof -
    have "x - c * p = p * (x / p - c)" using p by (simp add: field_simps)
    then show ?thesis using p by (simp add: abs_mult)
  qed
  have "fl x = of_int (rne (x / p)) * p"
    by (simp add: fl_def Let_def p_def)
  then have "\<bar>x - fl x\<bar> = p * \<bar>x / p - of_int (rne (x / p))\<bar>"
    by (simp only: scale)
  also have "\<dots> \<le> p * \<bar>x / p - of_int n\<bar>"
    using p rne_nearest[of "x / p" n] by simp
  also have "\<dots> = \<bar>x - of_int n * p\<bar>"
    by (simp only: scale)
  finally show ?thesis unfolding p_def .
qed

lemma fl_nearest:
  assumes m: "\<bar>m\<bar> \<le> 2 ^ 53" and k: "- 1074 \<le> k"
  shows "\<bar>x - fl x\<bar> \<le> \<bar>x - of_int m * 2 powi k\<bar>"
proof (cases "x = 0")
  case True
  then show ?thesis by (simp add: fl_0)
next
  case False
  define e where "e = expo x"
  define q where "q = max (e - 52) (- 1074)"
  have grid: "\<bar>x - fl x\<bar> \<le> \<bar>x - of_int n * 2 powi q\<bar>" for n
    using fl_grid_nearest[of x n] unfolding q_def e_def .
  show ?thesis
  proof (cases "q \<le> k")
    case True
    have "(2::real) powi k = 2 powi (k - q) * 2 powi q"
      using power_int_add[of "2::real" "k - q" q] by simp
    also have "(2::real) powi (k - q) = of_int (2 ^ nat (k - q))"
      using True by (simp add: power_int_def)
    finally have "(2::real) powi k = of_int (2 ^ nat (k - q)) * 2 powi q" .
    then have eq: "of_int m * 2 powi k = of_int (m * 2 ^ nat (k - q)) * (2::real) powi q"
      by (simp only: of_int_mult mult.assoc)
    show ?thesis unfolding eq by (rule grid)
  next
    case False
    with k have q: "q = e - 52" and kq: "k + 1 \<le> q" unfolding q_def by linarith+
    have e: "2 powi e \<le> \<bar>x\<bar>"
      using expo_bounds[OF \<open>x \<noteq> 0\<close>] unfolding e_def by simp
    have "(of_int \<bar>m\<bar> :: real) \<le> of_int (2 ^ 53)"
      using m by (simp only: of_int_le_iff)
    then have m': "\<bar>of_int m :: real\<bar> \<le> 2 powi 53" by simp
    have "\<bar>of_int m * (2::real) powi k\<bar> = \<bar>of_int m\<bar> * 2 powi k"
      by (simp add: abs_mult)
    also have "\<dots> \<le> 2 powi 53 * 2 powi k"
      using m' by (intro mult_right_mono) simp_all
    also have "\<dots> = 2 powi (53 + k)"
      using power_int_add[of "2::real" 53 k] by simp
    also have "\<dots> \<le> 2 powi e"
      using kq q by (intro power_int_increasing) simp_all
    finally have f: "\<bar>of_int m * (2::real) powi k\<bar> \<le> 2 powi e" .
    have g: "(2::real) powi e = of_int (2 ^ 52) * 2 powi q"
      using power_int_add[of "2::real" 52 q] q by simp
    show ?thesis
    proof (cases "0 < x")
      case True
      from grid[of "2 ^ 52"] g have "\<bar>x - fl x\<bar> \<le> \<bar>x - 2 powi e\<bar>" by simp
      with e f True show ?thesis by linarith
    next
      case neg: False
      from grid[of "- (2 ^ 52)"] g have "\<bar>x - fl x\<bar> \<le> \<bar>x + 2 powi e\<bar>" by simp
      with e f neg \<open>x \<noteq> 0\<close> show ?thesis by linarith
    qed
  qed
qed

lemma fl_repr: "\<exists>m k. fl x = of_int m * 2 powi k \<and> \<bar>m\<bar> \<le> 2 ^ 53 \<and> - 1074 \<le> k"
proof -
  define q where "q = max (expo x - 52) (- 1074)"
  have fl: "fl x = of_int (rne (x / 2 powi q)) * 2 powi q"
    by (simp add: fl_def Let_def q_def)
  have "\<bar>x / 2 powi q\<bar> \<le> of_int (2 ^ 53)"
  proof (cases "x = 0")
    case True
    then show ?thesis by simp
  next
    case False
    have "\<bar>x\<bar> < 2 powi (expo x + 1)" using expo_bounds[OF False] by simp
    also have "\<dots> \<le> 2 powi (53 + q)"
      unfolding q_def by (intro power_int_increasing) simp_all
    also have "\<dots> = 2 powi 53 * 2 powi q"
      using power_int_add[of "2::real" 53 q] by simp
    finally have "\<bar>x\<bar> / 2 powi q < 2 powi 53"
      by (simp add: pos_divide_less_eq)
    then show ?thesis by simp
  qed
  then have "\<bar>rne (x / 2 powi q)\<bar> \<le> 2 ^ 53" by (rule rne_bound)
  moreover have "- 1074 \<le> q" by (simp add: q_def)
  ultimately show ?thesis using fl by blast
qed

lemma fl_exact:
  "\<bar>m\<bar> \<le> 2 ^ 53 \<Longrightarrow> - 1074 \<le> k \<Longrightarrow> fl (of_int m * 2 powi k) = of_int m * 2 powi k"
  using fl_nearest[of m k "of_int m * 2 powi k"] by simp

lemma fl_of_int: "\<bar>n\<bar> \<le> 2 ^ 53 \<Longrightarrow> fl (of_int n) = of_int n"
  using fl_exact[of n 0] by simp

lemma fl_mono:
  assumes "x \<le> y"
  shows "fl x \<le> fl y"
proof (rule ccontr)
  assume "\<not> fl x \<le> fl y"
  then have lt: "fl y < fl x" by simp
  obtain m k where a: "fl x = of_int m * 2 powi k" "\<bar>m\<bar> \<le> 2 ^ 53" "- 1074 \<le> k"
    using fl_repr[of x] by blast
  obtain n j where b: "fl y = of_int n * 2 powi j" "\<bar>n\<bar> \<le> 2 ^ 53" "- 1074 \<le> j"
    using fl_repr[of y] by blast
  have 1: "\<bar>x - fl x\<bar> \<le> \<bar>x - fl y\<bar>"
    using fl_nearest[OF b(2,3), of x] unfolding b(1) .
  have 2: "\<bar>y - fl y\<bar> \<le> \<bar>y - fl x\<bar>"
    using fl_nearest[OF a(2,3), of y] unfolding a(1) .
  from 1 lt have "fl x + fl y \<le> 2 * x" by linarith
  moreover from 2 lt have "2 * y \<le> fl x + fl y" by linarith
  ultimately have "x = y" using assms by linarith
  with lt show False by simp
qed

lemma fl_nonneg: "0 \<le> x \<Longrightarrow> 0 \<le> fl x"
  using fl_mono[of 0 x] by (simp add: fl_0)

lemma fdiv_4_exact:
  assumes "\<bar>n\<bar> \<le> 2 ^ 53"
  shows "fdiv (of_int n) 4 = of_int n / 4"
proof -
  have "(of_int n :: real) / 4 = of_int n * 2 powi (- 2)"
    by (simp add: power_int_minus_divide)
  then show ?thesis
    using fl_exact[OF assms, of "- 2"] by (simp add: fdiv_def)
qed

lemma fadd_mono: "a \<le> b \<Longrightarrow> c \<le> d \<Longrightarrow> fadd a c \<le> fadd b d"
  unfolding fadd_def by (rule fl_mono) simp

lemma fmul_mono_left: "0 \<le> c \<Longrightarrow> a \<le> b \<Longrightarrow> fmul a c \<le> fmul b c"
  unfolding fmul_def by (rule fl_mono) (simp add: mult_right_mono)

lemma fdiv_mono_left: "0 \<le> c \<Longrightarrow> a \<le> b \<Longrightarrow> fdiv a c \<le> fdiv b c"
  unfolding fdiv_def by (rule fl_mono) (simp add: divide_right_mono)

text \<open>The equations that evaluate the operations on numerals.\<close>

lemmas f64_eval = fl_def expo_def expo_hi.simps expo_lo.simps rne_def Let_def
  fadd_def fsub_def fmul_def fdiv_def

section \<open>Properties of the percentile engine\<close>












section \<open>Properties of the cost model\<close>

lemma str_includes_sublist: "str_includes s search \<longleftrightarrow> sublist search s"
  by (induction s) (simp_all add: sublist_Cons_right)

lemma sumRows_fold:
  "sumRows rows tp tr mc =
     (foldl (\<lambda>acc r. fadd acc (nullish (prompt_chars r) 0)) tp rows,
      foldl (\<lambda>acc r. fadd acc (nullish (response_chars r) 0)) tr rows,
      countModels (specified_models rows) mc)"
  by (induction rows arbitrary: tp tr mc)
     (simp_all add: specified_models_def split: option.splits)

lemma sumRows_eq:
  "sumRows rows 0 0 [] =
     (total_prompt_chars rows, total_response_chars rows,
      countModels (specified_models rows) [])"
  by (simp add: sumRows_fold total_prompt_chars_def total_response_chars_def)

lemma map_fst_map_set_old: "k \<in> fst ` set mc \<Longrightarrow> map fst (map_set mc k v) = map fst mc"
  by (induction mc) force+

lemma map_fst_map_set_new: "k \<notin> fst ` set mc \<Longrightarrow> map fst (map_set mc k v) = map fst mc @ [k]"
  by (induction mc) auto

lemma map_fst_map_set:
  "map fst (map_set mc k v) = (if k \<in> fst ` set mc then map fst mc else map fst mc @ [k])"
  by (simp add: map_fst_map_set_old map_fst_map_set_new)

lemma keys_map_set: "fst ` set (map_set mc k v) = insert k (fst ` set mc)"
proof -
  have "set (map fst (map_set mc k v)) = insert k (set (map fst mc))"
    unfolding map_fst_map_set by auto
  then show ?thesis by simp
qed

lemma map_of_map_set: "map_of (map_set mc k v) = (map_of mc)(k \<mapsto> v)"
  by (induction mc) auto

lemma set_first_occ: "set (first_occ xs) = set xs"
  by (induction xs) auto

lemma distinct_first_occ: "distinct (first_occ xs)"
  by (induction xs) (auto simp: set_first_occ)

lemma keys_countModels:
  "map fst (countModels ms mc) = map fst mc @ filter (\<lambda>k. k \<notin> fst ` set mc) (first_occ ms)"
proof (induction ms arbitrary: mc)
  case Nil
  then show ?case by simp
next
  case (Cons m ms)
  show ?case
  proof (cases "m \<in> fst ` set mc")
    case True
    then have "filter (\<lambda>k. k \<notin> fst ` set mc) (filter (\<lambda>y. y \<noteq> m) (first_occ ms))
        = filter (\<lambda>k. k \<notin> fst ` set mc) (first_occ ms)"
      by (auto intro: filter_cong)
    with True show ?thesis
      by (simp add: Cons.IH map_fst_map_set keys_map_set insert_absorb)
  next
    case False
    have "fst ` set (map_set mc m v) = insert m (fst ` set mc)" for v
      by (rule keys_map_set)
    moreover have "filter (\<lambda>k. k \<notin> insert m (fst ` set mc)) (first_occ ms)
        = filter (\<lambda>k. k \<notin> fst ` set mc) (filter (\<lambda>y. y \<noteq> m) (first_occ ms))"
      by (auto intro: filter_cong)
    ultimately show ?thesis using False
      by (simp add: Cons.IH map_fst_map_set)
  qed
qed

lemma map_of_countModels:
  "map_of (countModels ms mc) k =
     (if k \<in> set ms \<or> map_of mc k \<noteq> None
      then Some (nullish (map_of mc k) 0 + count_list ms k) else None)"
  by (induction ms arbitrary: mc)
     (auto simp: map_of_map_set map_get_def nullish_def split: option.splits)

lemma countModels_entries:
  "countModels ms [] = map (\<lambda>k. (k, count_list ms k)) (first_occ ms)"
proof -
  let ?es = "countModels ms []"
  have keys: "map fst ?es = first_occ ms"
    using keys_countModels[of ms "[]"] by simp
  then have dist: "distinct (map fst ?es)"
    by (simp add: distinct_first_occ)
  have "e = (fst e, count_list ms (fst e))" if "e \<in> set ?es" for e
  proof -
    from that dist have "map_of ?es (fst e) = Some (snd e)"
      by (simp add: map_of_eq_Some_iff)
    then show ?thesis
      by (cases e) (auto simp: map_of_countModels nullish_def split: if_splits)
  qed
  then have "?es = map (\<lambda>e. (fst e, count_list ms (fst e))) ?es"
    by (simp add: map_idI)
  also have "\<dots> = map (\<lambda>k. (k, count_list ms k)) (map fst ?es)"
    by simp
  finally show ?thesis unfolding keys .
qed

lemma first_index_Cons:
  "first_index (x # xs) y = (if y = x then 0 else Suc (first_index xs y))"
  by (simp add: first_index_def)

lemma first_occ_sorted:
  "sorted_wrt (\<lambda>a b. first_index xs a < first_index xs b) (first_occ xs)"
proof (induction xs)
  case Nil
  then show ?case by simp
next
  case (Cons x xs)
  have "sorted_wrt (\<lambda>a b. first_index xs a < first_index xs b)
          (filter (\<lambda>y. y \<noteq> x) (first_occ xs))"
    using Cons.IH by (rule sorted_wrt_filter)
  then have "sorted_wrt (\<lambda>a b. first_index (x # xs) a < first_index (x # xs) b)
          (filter (\<lambda>y. y \<noteq> x) (first_occ xs))"
    by (rule sorted_wrt_mono_rel[rotated]) (simp add: first_index_Cons)
  then show ?case
    by (simp add: first_index_Cons)
qed

lemma pickDominant_spec:
  "if \<forall>e\<in>set entries. snd e \<le> mx then pickDominant entries mx d = d
   else (\<exists>us m c vs. entries = us @ (m, c) # vs \<and> pickDominant entries mx d = Some m
           \<and> mx < c \<and> (\<forall>e\<in>set us. snd e < c) \<and> (\<forall>e\<in>set vs. snd e \<le> c))"
proof (induction entries mx d rule: pickDominant.induct)
  case (1 maxCount dominantModel)
  then show ?case by simp
next
  case (2 m count entries maxCount dominantModel)
  let "if ?C then ?A else ?B" = ?case
  show ?case
  proof (cases "count > maxCount")
    case True
    note IH = "2.IH"(1)[OF True]
    from True have notall: "\<not> ?C" by auto
    have ?B
    proof (cases "\<forall>e\<in>set entries. snd e \<le> count")
      case all: True
      with IH have "pickDominant entries count (Some m) = Some m" by simp
      with True all show ?thesis
        by (intro exI[of _ "[]"] exI[of _ m] exI[of _ count] exI[of _ entries]) simp
    next
      case False
      with IH obtain us m' c vs where
        *: "entries = us @ (m', c) # vs" "pickDominant entries count (Some m) = Some m'"
           "count < c" "\<forall>e\<in>set us. snd e < c" "\<forall>e\<in>set vs. snd e \<le> c"
        by auto
      with True show ?thesis
        by (intro exI[of _ "(m, count) # us"] exI[of _ m'] exI[of _ c] exI[of _ vs]) simp
    qed
    with notall show ?thesis by (simp only: if_False)
  next
    case False
    note IH = "2.IH"(2)[OF False]
    show ?thesis
    proof (cases "\<forall>e\<in>set entries. snd e \<le> maxCount")
      case all: True
      with IH False show ?thesis by simp
    next
      case nall: False
      then have notall: "\<not> ?C" by auto
      have "\<exists>us m c vs. entries = us @ (m, c) # vs
           \<and> pickDominant entries maxCount dominantModel = Some m
           \<and> maxCount < c \<and> (\<forall>e\<in>set us. snd e < c) \<and> (\<forall>e\<in>set vs. snd e \<le> c)"
        using IH unfolding if_not_P[OF nall] .
      then obtain us m' c vs where
        *: "entries = us @ (m', c) # vs" "pickDominant entries maxCount dominantModel = Some m'"
           "maxCount < c" "\<forall>e\<in>set us. snd e < c" "\<forall>e\<in>set vs. snd e \<le> c"
        by blast
      with False have ?B
        by (intro exI[of _ "(m, count) # us"] exI[of _ m'] exI[of _ c] exI[of _ vs]) simp
      with notall show ?thesis by (simp only: if_False)
    qed
  qed
qed

lemma computeCost_eq:
  "computeCost table rows =
     (let dominantModel = pickDominant (countModels (specified_models rows) []) 0 None;
          pricing = pricingFor table dominantModel;
          inputTokens = estimateTokens (total_prompt_chars rows);
          outputTokens = estimateTokens (total_response_chars rows);
          inputCost = fmul (fdiv inputTokens 1000000) (inputPer1M pricing);
          outputCost = fmul (fdiv outputTokens 1000000) (outputPer1M pricing)
      in \<lparr>estimatedInputTokens = inputTokens,
          estimatedOutputTokens = outputTokens,
          estimatedTotalTokens = fadd inputTokens outputTokens,
          inputCostUsd = roundUsd inputCost,
          outputCostUsd = roundUsd outputCost,
          totalCostUsd = roundUsd (fadd inputCost outputCost),
          modelUsed = dominantModel\<rparr>)"
  by (simp add: computeCost_def sumRows_eq)

lemma dominant_Some:
  assumes ne: "ms \<noteq> []"
  shows "\<exists>m. pickDominant (countModels ms []) 0 None = Some m \<and> m \<in> set ms
        \<and> (\<forall>m'. count_list ms m' \<le> count_list ms m)
        \<and> (\<forall>m'. m' \<in> set ms \<and> m' \<noteq> m \<and> count_list ms m' = count_list ms m
              \<longrightarrow> first_index ms m < first_index ms m')"
proof -
  define es where "es = countModels ms []"
  have es: "es = map (\<lambda>k. (k, count_list ms k)) (first_occ ms)"
    by (simp add: es_def countModels_entries)
  have mem: "(k, count_list ms k) \<in> set es" if "k \<in> set ms" for k
    using that by (auto simp: es set_first_occ)
  have val: "c = count_list ms k \<and> k \<in> set ms" if "(k, c) \<in> set es" for k c
    using that by (auto simp: es set_first_occ)
  obtain x where x: "x \<in> set ms" using ne by (cases ms) auto
  then have "0 < count_list ms x" using count_list_0_iff[of ms x] by simp
  with mem[OF x] have nall: "\<not> (\<forall>e\<in>set es. snd e \<le> 0)" by force
  have "\<exists>us m c vs. es = us @ (m, c) # vs \<and> pickDominant es 0 None = Some m
           \<and> 0 < c \<and> (\<forall>e\<in>set us. snd e < c) \<and> (\<forall>e\<in>set vs. snd e \<le> c)"
    using pickDominant_spec[of es 0 None] unfolding if_not_P[OF nall] .
  then obtain us m c vs where
    *: "es = us @ (m, c) # vs" "pickDominant es 0 None = Some m"
       "\<forall>e\<in>set us. snd e < c" "\<forall>e\<in>set vs. snd e \<le> c"
    by blast
  have "(m, c) \<in> set es" using * by simp
  from val[OF this] have c: "c = count_list ms m" and m: "m \<in> set ms" by simp_all
  have le: "count_list ms m' \<le> count_list ms m" for m'
  proof (cases "m' \<in> set ms")
    case True
    from mem[OF this] * c show ?thesis by force
  next
    case False
    then show ?thesis by simp
  qed
  have tie: "first_index ms m < first_index ms m'"
    if "m' \<in> set ms" "m' \<noteq> m" "count_list ms m' = count_list ms m" for m'
  proof -
    from mem[OF that(1)] that(2,3) * c have "(m', c) \<in> set vs" by force
    then have "m' \<in> set (map fst vs)" by force
    moreover have "map fst es = first_occ ms"
      by (simp add: es comp_def)
    then have "first_occ ms = map fst us @ m # map fst vs"
      unfolding *(1) by simp
    ultimately show ?thesis
      using first_occ_sorted[of ms] by (auto simp: sorted_wrt_append)
  qed
  show ?thesis
    using *(2) m le tie unfolding es_def by blast
qed

lemma math_round_mono: "x \<le> y \<Longrightarrow> math_round x \<le> math_round y"
  by (simp add: math_round_def floor_mono)

lemma roundUsd_mono: "x \<le> y \<Longrightarrow> roundUsd x \<le> roundUsd y"
  unfolding roundUsd_def
  by (intro fdiv_mono_left math_round_mono fmul_mono_left) simp_all

lemma estimateTokens_mono: "x \<le> y \<Longrightarrow> estimateTokens x \<le> estimateTokens y"
  unfolding estimateTokens_def math_ceil_def
  by (simp add: ceiling_mono fdiv_mono_left)

lemma specified_models_cong:
  "map model rows = map model rows' \<Longrightarrow> specified_models rows = specified_models rows'"
proof -
  assume "map model rows = map model rows'"
  then have "map ((\<lambda>x. case x of None \<Rightarrow> [] | Some m \<Rightarrow> if m = [] then [] else [m]) \<circ> model) rows
     = map ((\<lambda>x. case x of None \<Rightarrow> [] | Some m \<Rightarrow> if m = [] then [] else [m]) \<circ> model) rows'"
    by (metis map_map)
  then show ?thesis by (simp add: specified_models_def comp_def)
qed

text \<open>
  Claim C2.  For rows whose prompt characters total 4000 and whose response characters
  total 800, priced at the pro tier (input 0.075 and output 0.30 USD per million tokens),
  \<open>computeCost\<close> returns 1000 input tokens, 200 output tokens, an input cost of 0.000075,
  an output cost of 0.00006 and a total cost of 0.000135 USD.  For every list of rows the
  token counts are the ceiling of a quarter of the prompt total and of the response total
  separately (the division by 4 is exact on an integer total up to \<open>2^53\<close>), and every
  USD figure is a whole number of millionths, the cost times 1000000 rounded to the
  nearest integer, divided by 1000000.  The product that is rounded is the binary64 one:
  1040 prompt characters are 260 tokens and cost 0.000019 USD, because 0.0000195 times
  1000000 is computed as 19.499999999999996.
\<close>

theorem computeCost_scenario:
  assumes "total_prompt_chars rows = 4000" and "total_response_chars rows = 800"
    and "pricingFor table (modelUsed (computeCost table rows))
           = \<lparr>inputPer1M = fl (75 / 1000), outputPer1M = fl (30 / 100)\<rparr>"
  shows "estimatedInputTokens (computeCost table rows) = 1000
       \<and> estimatedOutputTokens (computeCost table rows) = 200
       \<and> inputCostUsd (computeCost table rows) = fl (75 / 1000000)
       \<and> outputCostUsd (computeCost table rows) = fl (60 / 1000000)
       \<and> totalCostUsd (computeCost table rows) = fl (135 / 1000000)
       \<and> estimatedInputTokens (computeCost tbl rs) = of_int \<lceil>fdiv (total_prompt_chars rs) 4\<rceil>
       \<and> estimatedOutputTokens (computeCost tbl rs) = of_int \<lceil>fdiv (total_response_chars rs) 4\<rceil>
       \<and> (\<bar>n\<bar> \<le> 2 ^ 53 \<longrightarrow> fdiv (of_int n) 4 = of_int n / 4)
       \<and> inputCostUsd (computeCost tbl rs)
           = fdiv (of_int \<lfloor>fmul (fmul (fdiv (estimatedInputTokens (computeCost tbl rs)) 1000000)
                                    (inputPer1M (pricingFor tbl (modelUsed (computeCost tbl rs)))))
                               1000000 + 1 / 2\<rfloor>) 1000000
       \<and> outputCostUsd (computeCost tbl rs)
           = fdiv (of_int \<lfloor>fmul (fmul (fdiv (estimatedOutputTokens (computeCost tbl rs)) 1000000)
                                    (outputPer1M (pricingFor tbl (modelUsed (computeCost tbl rs)))))
                               1000000 + 1 / 2\<rfloor>) 1000000
       \<and> totalCostUsd (computeCost tbl rs)
           = fdiv (of_int \<lfloor>fmul
                     (fadd (fmul (fdiv (estimatedInputTokens (computeCost tbl rs)) 1000000)
                              (inputPer1M (pricingFor tbl (modelUsed (computeCost tbl rs)))))
                           (fmul (fdiv (estimatedOutputTokens (computeCost tbl rs)) 1000000)
                              (outputPer1M (pricingFor tbl (modelUsed (computeCost tbl rs))))))
                     1000000 + 1 / 2\<rfloor>) 1000000
       \<and> inputCostUsd (computeCost default_table
             [\<lparr>prompt_chars = Some 1040, response_chars = None, model = None\<rparr>])
           = fl (19 / 1000000)"
proof -
  have example: "inputCostUsd (computeCost default_table
             [\<lparr>prompt_chars = Some 1040, response_chars = None, model = None\<rparr>])
           = fl (19 / 1000000)"
    by (simp add: computeCost_def pricingFor_def DEFAULT_PRICING_def PRICING_def default_table_def
        envFloat_def Let_def nullish_def estimateTokens_def math_ceil_def roundUsd_def
        math_round_def)
       (simp add: f64_eval)
  have tokens: "estimateTokens 4000 = 1000" "estimateTokens 800 = 200"
    by (simp_all add: estimateTokens_def math_ceil_def f64_eval)
  have costs:
    "roundUsd (fmul (fdiv 1000 1000000) (fl (75 / 1000))) = fl (75 / 1000000)"
    "roundUsd (fmul (fdiv 200 1000000) (fl (30 / 100))) = fl (60 / 1000000)"
    "roundUsd (fadd (fmul (fdiv 1000 1000000) (fl (75 / 1000)))
                    (fmul (fdiv 200 1000000) (fl (30 / 100)))) = fl (135 / 1000000)"
    by (simp_all add: roundUsd_def math_round_def f64_eval)
  have scenario: "estimatedInputTokens (computeCost table rows) = 1000
       \<and> estimatedOutputTokens (computeCost table rows) = 200
       \<and> inputCostUsd (computeCost table rows) = fl (75 / 1000000)
       \<and> outputCostUsd (computeCost table rows) = fl (60 / 1000000)
       \<and> totalCostUsd (computeCost table rows) = fl (135 / 1000000)"
    using assms(3) costs unfolding computeCost_eq Let_def assms(1,2) tokens
    by simp
  have general: "estimatedInputTokens (computeCost tbl rs) = of_int \<lceil>fdiv (total_prompt_chars rs) 4\<rceil>
       \<and> estimatedOutputTokens (computeCost tbl rs) = of_int \<lceil>fdiv (total_response_chars rs) 4\<rceil>"
    by (simp add: computeCost_eq Let_def estimateTokens_def math_ceil_def)
  have rounding: "inputCostUsd (computeCost tbl rs)
           = fdiv (of_int \<lfloor>fmul (fmul (fdiv (estimatedInputTokens (computeCost tbl rs)) 1000000)
                                    (inputPer1M (pricingFor tbl (modelUsed (computeCost tbl rs)))))
                               1000000 + 1 / 2\<rfloor>) 1000000
       \<and> outputCostUsd (computeCost tbl rs)
           = fdiv (of_int \<lfloor>fmul (fmul (fdiv (estimatedOutputTokens (computeCost tbl rs)) 1000000)
                                    (outputPer1M (pricingFor tbl (modelUsed (computeCost tbl rs)))))
                               1000000 + 1 / 2\<rfloor>) 1000000
       \<and> totalCostUsd (computeCost tbl rs)
           = fdiv (of_int \<lfloor>fmul
                     (fadd (fmul (fdiv (estimatedInputTokens (computeCost tbl rs)) 1000000)
                              (inputPer1M (pricingFor tbl (modelUsed (computeCost tbl rs)))))
                           (fmul (fdiv (estimatedOutputTokens (computeCost tbl rs)) 1000000)
                              (outputPer1M (pricingFor tbl (modelUsed (computeCost tbl rs))))))
                     1000000 + 1 / 2\<rfloor>) 1000000"
    by (simp add: computeCost_eq Let_def roundUsd_def math_round_def)
  show ?thesis
    using scenario general rounding fdiv_4_exact[of n] example by blast
qed

theorem computeCost_scenario_witness:
  "total_prompt_chars [\<lparr>prompt_chars = Some 4000, response_chars = Some 800, model = None\<rparr>] = 4000
   \<and> total_response_chars [\<lparr>prompt_chars = Some 4000, response_chars = Some 800, model = None\<rparr>] = 800
   \<and> totalCostUsd (computeCost default_table
        [\<lparr>prompt_chars = Some 4000, response_chars = Some 800, model = None\<rparr>])
       = fl (135 / 1000000)
   \<and> fl (135 / 1000000) = 4980620899901579 / 2 ^ 65
   \<and> estimatedInputTokens (computeCost default_table
        [\<lparr>prompt_chars = Some 4001, response_chars = None, model = None\<rparr>]) = 1001
   \<and> inputCostUsd (computeCost default_table
        [\<lparr>prompt_chars = Some 1040, response_chars = None, model = None\<rparr>])
       = fl (19 / 1000000)"
proof -
  let ?rows = "[\<lparr>prompt_chars = Some 4000, response_chars = Some 800, model = None\<rparr>]"
  have 1: "total_prompt_chars ?rows = 4000"
    by (simp add: total_prompt_chars_def nullish_def) (simp add: f64_eval)
  have 2: "total_response_chars ?rows = 800"
    by (simp add: total_response_chars_def nullish_def) (simp add: f64_eval)
  have pro: "pricingFor default_table (modelUsed (computeCost default_table [r]))
           = \<lparr>inputPer1M = fl (75 / 1000), outputPer1M = fl (30 / 100)\<rparr>"
    if "model r = None" for r
    using that
    by (simp add: computeCost_def pricingFor_def DEFAULT_PRICING_def PRICING_def default_table_def
        envFloat_def Let_def)
  have 3: "pricingFor default_table (modelUsed (computeCost default_table ?rows))
           = \<lparr>inputPer1M = fl (75 / 1000), outputPer1M = fl (30 / 100)\<rparr>"
    by (rule pro) simp
  note scenario = computeCost_scenario[OF 1 2 3]
  have total: "totalCostUsd (computeCost default_table ?rows) = fl (135 / 1000000)"
    using scenario[of default_table ?rows 0] by (elim conjE)
  have 4: "fl (135 / 1000000) = 4980620899901579 / 2 ^ 65"
    by (simp add: f64_eval)
  let ?rs = "[\<lparr>prompt_chars = Some 4001, response_chars = None, model = None\<rparr>]"
  have t: "total_prompt_chars ?rs = 4001"
    by (simp add: total_prompt_chars_def nullish_def) (simp add: f64_eval)
  have "estimatedInputTokens (computeCost default_table ?rs)
      = of_int \<lceil>fdiv (total_prompt_chars ?rs) 4\<rceil>"
    using scenario[of default_table ?rs 0] by (elim conjE)
  then have 5: "estimatedInputTokens (computeCost default_table ?rs) = 1001"
    unfolding t by (simp add: f64_eval)
  let ?rs' = "[\<lparr>prompt_chars = Some 1040, response_chars = None, model = None\<rparr>]"
  have t': "total_prompt_chars ?rs' = 1040"
    by (simp add: total_prompt_chars_def nullish_def) (simp add: f64_eval)
  have p': "pricingFor default_table (modelUsed (computeCost default_table ?rs'))
      = \<lparr>inputPer1M = fl (75 / 1000), outputPer1M = fl (30 / 100)\<rparr>"
    by (rule pro) simp
  have "estimatedInputTokens (computeCost default_table ?rs')
      = of_int \<lceil>fdiv (total_prompt_chars ?rs') 4\<rceil>"
    using scenario[of default_table ?rs' 0] by (elim conjE)
  then have e': "estimatedInputTokens (computeCost default_table ?rs') = 260"
    unfolding t' by (simp add: f64_eval)
  have "inputCostUsd (computeCost default_table ?rs')
           = fdiv (of_int \<lfloor>fmul (fmul (fdiv (estimatedInputTokens (computeCost default_table ?rs')) 1000000)
                                    (inputPer1M (pricingFor default_table (modelUsed (computeCost default_table ?rs')))))
                               1000000 + 1 / 2\<rfloor>) 1000000"
    using scenario[of default_table ?rs' 0] by (elim conjE)
  then have 6: "inputCostUsd (computeCost default_table ?rs') = fl (19 / 1000000)"
    unfolding e' p' by (simp add: f64_eval)
  show ?thesis
    using 1 2 total 4 5 6 by (intro conjI)
qed

text \<open>
  Claim C6.  Cost is monotonic: for two lists of rows with the same model assignment, if
  neither the total of prompt characters nor the total of response characters decreases,
  the \<open>totalCostUsd\<close> returned by \<open>computeCost\<close> does not decrease (prices are not
  negative).  Every operation is rounded as binary64 rounds.
\<close>

theorem computeCost_monotonic:
  assumes models: "map model rows = map model rows'"
    and prompt: "total_prompt_chars rows \<le> total_prompt_chars rows'"
    and response: "total_response_chars rows \<le> total_response_chars rows'"
    and prices: "0 \<le> inputPer1M (gemini_2_5_pro table)" "0 \<le> outputPer1M (gemini_2_5_pro table)"
      "0 \<le> inputPer1M (gemini_2_5_flash table)" "0 \<le> outputPer1M (gemini_2_5_flash table)"
  shows "totalCostUsd (computeCost table rows) \<le> totalCostUsd (computeCost table rows')"
proof -
  define pricing where
    "pricing = pricingFor table (pickDominant (countModels (specified_models rows) []) 0 None)"
  have pricing': "pricing = pricingFor table (pickDominant (countModels (specified_models rows') []) 0 None)"
    using specified_models_cong[OF models] by (simp add: pricing_def)
  have nonneg: "0 \<le> inputPer1M pricing" "0 \<le> outputPer1M pricing"
    using prices
    by (auto simp: pricing_def pricingFor_def DEFAULT_PRICING_def split: option.splits)
  have "fmul (fdiv (estimateTokens (total_prompt_chars rows)) 1000000) (inputPer1M pricing)
      \<le> fmul (fdiv (estimateTokens (total_prompt_chars rows')) 1000000) (inputPer1M pricing)"
    using estimateTokens_mono[OF prompt] nonneg(1)
    by (intro fmul_mono_left fdiv_mono_left) simp_all
  moreover have
    "fmul (fdiv (estimateTokens (total_response_chars rows)) 1000000) (outputPer1M pricing)
      \<le> fmul (fdiv (estimateTokens (total_response_chars rows')) 1000000) (outputPer1M pricing)"
    using estimateTokens_mono[OF response] nonneg(2)
    by (intro fmul_mono_left fdiv_mono_left) simp_all
  ultimately have "roundUsd
       (fadd (fmul (fdiv (estimateTokens (total_prompt_chars rows)) 1000000) (inputPer1M pricing))
         (fmul (fdiv (estimateTokens (total_response_chars rows)) 1000000) (outputPer1M pricing)))
     \<le> roundUsd
       (fadd (fmul (fdiv (estimateTokens (total_prompt_chars rows')) 1000000) (inputPer1M pricing))
         (fmul (fdiv (estimateTokens (total_response_chars rows')) 1000000) (outputPer1M pricing)))"
    by (intro roundUsd_mono fadd_mono)
  moreover have "totalCostUsd (computeCost table rows) =
      roundUsd
       (fadd (fmul (fdiv (estimateTokens (total_prompt_chars rows)) 1000000) (inputPer1M pricing))
         (fmul (fdiv (estimateTokens (total_response_chars rows)) 1000000) (outputPer1M pricing)))"
    by (simp add: computeCost_eq Let_def pricing_def)
  moreover have "totalCostUsd (computeCost table rows') =
      roundUsd
       (fadd (fmul (fdiv (estimateTokens (total_prompt_chars rows')) 1000000) (inputPer1M pricing))
         (fmul (fdiv (estimateTokens (total_response_chars rows')) 1000000) (outputPer1M pricing)))"
    by (simp add: computeCost_eq Let_def pricing')
  ultimately show ?thesis by simp
qed

theorem computeCost_monotonic_witness:
  "map model [\<lparr>prompt_chars = Some 4000, response_chars = None, model = Some ''gemini-2.5-flash''\<rparr>]
     = map model [\<lparr>prompt_chars = Some 4001, response_chars = Some 3, model = Some ''gemini-2.5-flash''\<rparr>]
   \<and> totalCostUsd (computeCost default_table
        [\<lparr>prompt_chars = Some 4000, response_chars = None, model = Some ''gemini-2.5-flash''\<rparr>])
     \<le> totalCostUsd (computeCost default_table
        [\<lparr>prompt_chars = Some 4001, response_chars = Some 3, model = Some ''gemini-2.5-flash''\<rparr>])"
proof -
  let ?rows = "[\<lparr>prompt_chars = Some 4000, response_chars = None, model = Some ''gemini-2.5-flash''\<rparr>]"
  let ?rows' = "[\<lparr>prompt_chars = Some 4001, response_chars = Some 3, model = Some ''gemini-2.5-flash''\<rparr>]"
  let ?table = "default_table"
  have 1: "map model ?rows = map model ?rows'" by simp
  have 2: "total_prompt_chars ?rows \<le> total_prompt_chars ?rows'"
    by (simp add: total_prompt_chars_def nullish_def) (simp add: f64_eval)
  have 3: "total_response_chars ?rows \<le> total_response_chars ?rows'"
    by (simp add: total_response_chars_def nullish_def) (simp add: f64_eval)
  have 4: "0 \<le> inputPer1M (gemini_2_5_pro ?table)" "0 \<le> outputPer1M (gemini_2_5_pro ?table)"
      "0 \<le> inputPer1M (gemini_2_5_flash ?table)" "0 \<le> outputPer1M (gemini_2_5_flash ?table)"
    by (simp_all add: PRICING_def default_table_def envFloat_def fl_nonneg)
  show ?thesis
    using computeCost_monotonic[OF 1 2 3 4] 1 by simp
qed

text \<open>
  Claim C5.  The dominant model chosen by \<open>computeCost\<close> is the identifier that appears
  most often among the rows that specify one; among identifiers that appear equally often
  it is the one first encountered in the order of the rows; it is \<open>null\<close> when no row
  specifies a model.  The pricing tier is resolved from it: an identifier that contains
  \<open>flash\<close> has the flash tier, every other one and \<open>null\<close> have the pro tier, and the
  three cost figures are computed at that tier.
\<close>

theorem computeCost_dominant_model:
  "(specified_models rows = [] \<longrightarrow> modelUsed (computeCost table rows) = None)
   \<and> (specified_models rows \<noteq> [] \<longrightarrow>
        (\<exists>m. modelUsed (computeCost table rows) = Some m
           \<and> m \<in> set (specified_models rows)
           \<and> (\<forall>m'. count_list (specified_models rows) m' \<le> count_list (specified_models rows) m)
           \<and> (\<forall>m'. m' \<in> set (specified_models rows) \<and> m' \<noteq> m
                  \<and> count_list (specified_models rows) m' = count_list (specified_models rows) m
                \<longrightarrow> first_index (specified_models rows) m < first_index (specified_models rows) m')))
   \<and> (let c = computeCost table rows;
           tier = (case modelUsed c of
                     None \<Rightarrow> gemini_2_5_pro table
                   | Some m \<Rightarrow> if sublist ''flash'' m then gemini_2_5_flash table
                              else gemini_2_5_pro table)
       in inputCostUsd c = roundUsd (fmul (fdiv (estimatedInputTokens c) 1000000) (inputPer1M tier))
        \<and> outputCostUsd c
            = roundUsd (fmul (fdiv (estimatedOutputTokens c) 1000000) (outputPer1M tier))
        \<and> totalCostUsd c
            = roundUsd (fadd (fmul (fdiv (estimatedInputTokens c) 1000000) (inputPer1M tier))
                             (fmul (fdiv (estimatedOutputTokens c) 1000000) (outputPer1M tier))))
   \<and> pricingFor table None = gemini_2_5_pro table
   \<and> pricingFor table (Some identifier) =
        (if sublist ''flash'' identifier then gemini_2_5_flash table else gemini_2_5_pro table)"
proof -
  have used: "modelUsed (computeCost table rows)
      = pickDominant (countModels (specified_models rows) []) 0 None"
    by (simp add: computeCost_eq Let_def)
  have none: "specified_models rows = [] \<longrightarrow> modelUsed (computeCost table rows) = None"
    by (simp add: used)
  have some: "specified_models rows \<noteq> [] \<longrightarrow>
        (\<exists>m. modelUsed (computeCost table rows) = Some m
           \<and> m \<in> set (specified_models rows)
           \<and> (\<forall>m'. count_list (specified_models rows) m' \<le> count_list (specified_models rows) m)
           \<and> (\<forall>m'. m' \<in> set (specified_models rows) \<and> m' \<noteq> m
                  \<and> count_list (specified_models rows) m' = count_list (specified_models rows) m
                \<longrightarrow> first_index (specified_models rows) m < first_index (specified_models rows) m'))"
    unfolding used using dominant_Some[of "specified_models rows"] by blast
  have nosub: "\<not> sublist ''flash'' []"
    by simp
  have tier: "pricingFor table d =
      (case d of None \<Rightarrow> gemini_2_5_pro table
       | Some m \<Rightarrow> if sublist ''flash'' m then gemini_2_5_flash table else gemini_2_5_pro table)" for d
    using nosub
    by (auto simp: pricingFor_def DEFAULT_PRICING_def str_includes_sublist split: option.splits)
  have costs: "let c = computeCost table rows;
           tier = (case modelUsed c of
                     None \<Rightarrow> gemini_2_5_pro table
                   | Some m \<Rightarrow> if sublist ''flash'' m then gemini_2_5_flash table
                              else gemini_2_5_pro table)
       in inputCostUsd c = roundUsd (fmul (fdiv (estimatedInputTokens c) 1000000) (inputPer1M tier))
        \<and> outputCostUsd c
            = roundUsd (fmul (fdiv (estimatedOutputTokens c) 1000000) (outputPer1M tier))
        \<and> totalCostUsd c
            = roundUsd (fadd (fmul (fdiv (estimatedInputTokens c) 1000000) (inputPer1M tier))
                             (fmul (fdiv (estimatedOutputTokens c) 1000000) (outputPer1M tier)))"
    unfolding tier[symmetric] by (simp add: computeCost_eq Let_def)
  show ?thesis
    using none some costs tier[of None] tier[of "Some identifier"] by simp
qed

theorem computeCost_dominant_model_witness:
  "specified_models
      [\<lparr>prompt_chars = Some 40, response_chars = None, model = Some ''gemini-2.5-flash''\<rparr>,
       \<lparr>prompt_chars = None, response_chars = Some 8, model = Some ''gemini-2.5-pro''\<rparr>,
       \<lparr>prompt_chars = None, response_chars = Some 8, model = None\<rparr>,
       \<lparr>prompt_chars = None, response_chars = Some 8, model = Some ''gemini-2.5-pro''\<rparr>,
       \<lparr>prompt_chars = Some 40, response_chars = None, model = Some ''gemini-2.5-flash''\<rparr>]
     = [''gemini-2.5-flash'', ''gemini-2.5-pro'', ''gemini-2.5-pro'', ''gemini-2.5-flash'']
   \<and> modelUsed (computeCost default_table
      [\<lparr>prompt_chars = Some 40, response_chars = None, model = Some ''gemini-2.5-flash''\<rparr>,
       \<lparr>prompt_chars = None, response_chars = Some 8, model = Some ''gemini-2.5-pro''\<rparr>,
       \<lparr>prompt_chars = None, response_chars = Some 8, model = None\<rparr>,
       \<lparr>prompt_chars = None, response_chars = Some 8, model = Some ''gemini-2.5-pro''\<rparr>,
       \<lparr>prompt_chars = Some 40, response_chars = None, model = Some ''gemini-2.5-flash''\<rparr>])
     = Some ''gemini-2.5-flash''
   \<and> first_index [''gemini-2.5-flash'', ''gemini-2.5-pro'', ''gemini-2.5-pro'', ''gemini-2.5-flash'']
        ''gemini-2.5-flash''
     < first_index [''gemini-2.5-flash'', ''gemini-2.5-pro'', ''gemini-2.5-pro'', ''gemini-2.5-flash'']
        ''gemini-2.5-pro''
   \<and> modelUsed (computeCost default_table []) = None"
proof -
  let ?rows = "[\<lparr>prompt_chars = Some 40, response_chars = None, model = Some ''gemini-2.5-flash''\<rparr>,
       \<lparr>prompt_chars = None, response_chars = Some 8, model = Some ''gemini-2.5-pro''\<rparr>,
       \<lparr>prompt_chars = None, response_chars = Some 8, model = None\<rparr>,
       \<lparr>prompt_chars = None, response_chars = Some 8, model = Some ''gemini-2.5-pro''\<rparr>,
       \<lparr>prompt_chars = Some 40, response_chars = None, model = Some ''gemini-2.5-flash''\<rparr>]"
  let ?ms = "[''gemini-2.5-flash'', ''gemini-2.5-pro'', ''gemini-2.5-pro'', ''gemini-2.5-flash'']"
  let ?table = "default_table"
  have ms: "specified_models ?rows = ?ms"
    by (simp add: specified_models_def)
  have used: "modelUsed (computeCost ?table ?rows) = Some ''gemini-2.5-flash''"
    by (simp add: computeCost_def Let_def map_get_def nullish_def)
  have cnt: "count_list ?ms ''gemini-2.5-pro'' = count_list ?ms ''gemini-2.5-flash''"
    by simp
  have "\<forall>m'. m' \<in> set ?ms \<and> m' \<noteq> ''gemini-2.5-flash''
          \<and> count_list ?ms m' = count_list ?ms ''gemini-2.5-flash''
        \<longrightarrow> first_index ?ms ''gemini-2.5-flash'' < first_index ?ms m'"
    using computeCost_dominant_model[of ?rows ?table] unfolding ms used by simp
  then have "''gemini-2.5-pro'' \<in> set ?ms \<and> ''gemini-2.5-pro'' \<noteq> ''gemini-2.5-flash''
          \<and> count_list ?ms ''gemini-2.5-pro'' = count_list ?ms ''gemini-2.5-flash''
        \<longrightarrow> first_index ?ms ''gemini-2.5-flash'' < first_index ?ms ''gemini-2.5-pro''"
    by (rule allE)
  then have lt: "first_index ?ms ''gemini-2.5-flash'' < first_index ?ms ''gemini-2.5-pro''"
    using cnt by simp
  have empty: "specified_models [] = []"
    by (simp add: specified_models_def)
  have none: "modelUsed (computeCost ?table []) = None"
    using computeCost_dominant_model[of "[]" ?table] empty by simp
  show ?thesis
    using ms used lt none by simp
qed

section \<open>Properties of the comparison\<close>

lemma maybeFlag_flags_for:
  "maybeFlag regs metricName baseVal cmpVal d = regs @ flags_for metricName baseVal cmpVal d"
  by (simp add: maybeFlag_def flags_for_def severity_of_delta_def)

lemma flags_for_nonpos: "d \<le> 0 \<Longrightarrow> flags_for metricName baseVal cmpVal d = []"
  by (simp add: flags_for_def severity_of_delta_def)

lemma regressions_eq:
  "regressions (compareSessionSummaries baseline compare) =
     flags_for ''cost_usd'' (totalCostUsd (cost baseline)) (totalCostUsd (cost compare))
       (if totalCostUsd (cost baseline) > 0
        then computed_delta_pct (totalCostUsd (cost baseline)) (totalCostUsd (cost compare))
        else 0)
     @ (case (durationMs baseline, durationMs compare) of
          (Some b, Some c) \<Rightarrow>
            if b > 0 then flags_for ''session_duration_ms'' b c (computed_delta_pct b c) else []
        | _ \<Rightarrow> [])
     @ (case (overallLatency baseline, overallLatency compare) of
          (Some b, Some c) \<Rightarrow>
            flags_for ''p95_tool_latency_ms'' (p95Ms b) (p95Ms c)
              (if p95Ms b = 0 then 0 else computed_delta_pct (p95Ms b) (p95Ms c))
        | _ \<Rightarrow> [])"
proof -
  have nonpos: "\<not> 0 < x \<Longrightarrow> flags_for m b c x = []" for m b c x
    by (simp add: flags_for_nonpos)
  show ?thesis
    by (auto simp: compareSessionSummaries_def Let_def maybeFlag_flags_for p95DeltaPct_def
        nullish_def nonpos computed_delta_pct_def
        split: option.splits)
qed





text \<open>
  Claim C4.  Comparing a session summary with itself gives \<open>costDeltaUsd = 0\<close>,
  \<open>costDeltaPct = 0\<close>, \<open>toolCallDelta = 0\<close>, a duration delta and a P95 latency delta that
  are 0 whenever they are not \<open>null\<close> (and likewise their percentages), and no regression.
\<close>

theorem compareSessionSummaries_self:
  "costDeltaUsd (compareSessionSummaries s s) = 0
   \<and> costDeltaPct (compareSessionSummaries s s) = 0
   \<and> toolCallDelta (compareSessionSummaries s s) = 0
   \<and> durationDeltaMs (compareSessionSummaries s s) = map_option (\<lambda>d. 0) (durationMs s)
   \<and> durationDeltaPct (compareSessionSummaries s s)
       = (case durationMs s of None \<Rightarrow> None | Some d \<Rightarrow> if d > 0 then Some 0 else None)
   \<and> p95LatencyDeltaMs (compareSessionSummaries s s) = map_option (\<lambda>l. 0) (overallLatency s)
   \<and> p95LatencyDeltaPct (compareSessionSummaries s s) = map_option (\<lambda>l. 0) (overallLatency s)
   \<and> regressions (compareSessionSummaries s s) = []"
proof -
  have zero: "fsub x x = 0" "fdiv 0 x = 0" "fmul 0 x = 0" for x
    by (simp_all add: fsub_def fdiv_def fmul_def fl_0)
  have delta: "computed_delta_pct x x = 0" for x
    by (simp add: computed_delta_pct_def zero)
  have r: "regressions (compareSessionSummaries s s) = []"
    unfolding regressions_eq
    by (simp add: flags_for_nonpos delta split: option.splits)
  have rest: "costDeltaUsd (compareSessionSummaries s s) = 0
   \<and> costDeltaPct (compareSessionSummaries s s) = 0
   \<and> toolCallDelta (compareSessionSummaries s s) = 0
   \<and> durationDeltaMs (compareSessionSummaries s s) = map_option (\<lambda>d. 0) (durationMs s)
   \<and> durationDeltaPct (compareSessionSummaries s s)
       = (case durationMs s of None \<Rightarrow> None | Some d \<Rightarrow> if d > 0 then Some 0 else None)
   \<and> p95LatencyDeltaMs (compareSessionSummaries s s) = map_option (\<lambda>l. 0) (overallLatency s)
   \<and> p95LatencyDeltaPct (compareSessionSummaries s s) = map_option (\<lambda>l. 0) (overallLatency s)"
    by (simp add: compareSessionSummaries_def Let_def roundUsd_def math_round_def p95DeltaPct_def
        zero split: option.splits)
  show ?thesis using r rest by simp
qed

theorem compareSessionSummaries_self_witness:
  "costDeltaUsd (compareSessionSummaries
      \<lparr>sessionId = ''a'', label = None, startedAt = ''2026-01-01T00:00:00.000Z'',
       endedAt = Some ''2026-01-01T00:00:01.000Z'', durationMs = Some 1000,
       toolCallCount = 3, llmRequestCount = 0, errorCount = 0, uniqueToolsUsed = [],
       cost = \<lparr>estimatedInputTokens = 0, estimatedOutputTokens = 0, estimatedTotalTokens = 0,
               inputCostUsd = fl (10 / 10000), outputCostUsd = 0, totalCostUsd = fl (10 / 10000), modelUsed = None\<rparr>,
       overallLatency = Some \<lparr>p50Ms = 100, p75Ms = 100, p95Ms = 100, p99Ms = 100, minMs = 100,
                       maxMs = 100, meanMs = 100, sampleCount = 1\<rparr>, toolBreakdown = []\<rparr>
      \<lparr>sessionId = ''a'', label = None, startedAt = ''2026-01-01T00:00:00.000Z'',
       endedAt = Some ''2026-01-01T00:00:01.000Z'', durationMs = Some 1000,
       toolCallCount = 3, llmRequestCount = 0, errorCount = 0, uniqueToolsUsed = [],
       cost = \<lparr>estimatedInputTokens = 0, estimatedOutputTokens = 0, estimatedTotalTokens = 0,
               inputCostUsd = fl (10 / 10000), outputCostUsd = 0, totalCostUsd = fl (10 / 10000), modelUsed = None\<rparr>,
       overallLatency = Some \<lparr>p50Ms = 100, p75Ms = 100, p95Ms = 100, p99Ms = 100, minMs = 100,
                       maxMs = 100, meanMs = 100, sampleCount = 1\<rparr>, toolBreakdown = []\<rparr>) = 0
   \<and> durationDeltaPct (compareSessionSummaries
      \<lparr>sessionId = ''a'', label = None, startedAt = ''2026-01-01T00:00:00.000Z'',
       endedAt = Some ''2026-01-01T00:00:01.000Z'', durationMs = Some 1000,
       toolCallCount = 3, llmRequestCount = 0, errorCount = 0, uniqueToolsUsed = [],
       cost = \<lparr>estimatedInputTokens = 0, estimatedOutputTokens = 0, estimatedTotalTokens = 0,
               inputCostUsd = fl (10 / 10000), outputCostUsd = 0, totalCostUsd = fl (10 / 10000), modelUsed = None\<rparr>,
       overallLatency = Some \<lparr>p50Ms = 100, p75Ms = 100, p95Ms = 100, p99Ms = 100, minMs = 100,
                       maxMs = 100, meanMs = 100, sampleCount = 1\<rparr>, toolBreakdown = []\<rparr>
      \<lparr>sessionId = ''a'', label = None, startedAt = ''2026-01-01T00:00:00.000Z'',
       endedAt = Some ''2026-01-01T00:00:01.000Z'', durationMs = Some 1000,
       toolCallCount = 3, llmRequestCount = 0, errorCount = 0, uniqueToolsUsed = [],
       cost = \<lparr>estimatedInputTokens = 0, estimatedOutputTokens = 0, estimatedTotalTokens = 0,
               inputCostUsd = fl (10 / 10000), outputCostUsd = 0, totalCostUsd = fl (10 / 10000), modelUsed = None\<rparr>,
       overallLatency = Some \<lparr>p50Ms = 100, p75Ms = 100, p95Ms = 100, p99Ms = 100, minMs = 100,
                       maxMs = 100, meanMs = 100, sampleCount = 1\<rparr>, toolBreakdown = []\<rparr>) = Some 0
   \<and> p95LatencyDeltaPct (compareSessionSummaries
      \<lparr>sessionId = ''a'', label = None, startedAt = ''2026-01-01T00:00:00.000Z'',
       endedAt = Some ''2026-01-01T00:00:01.000Z'', durationMs = Some 1000,
       toolCallCount = 3, llmRequestCount = 0, errorCount = 0, uniqueToolsUsed = [],
       cost = \<lparr>estimatedInputTokens = 0, estimatedOutputTokens = 0, estimatedTotalTokens = 0,
               inputCostUsd = fl (10 / 10000), outputCostUsd = 0, totalCostUsd = fl (10 / 10000), modelUsed = None\<rparr>,
       overallLatency = Some \<lparr>p50Ms = 100, p75Ms = 100, p95Ms = 100, p99Ms = 100, minMs = 100,
                       maxMs = 100, meanMs = 100, sampleCount = 1\<rparr>, toolBreakdown = []\<rparr>
      \<lparr>sessionId = ''a'', label = None, startedAt = ''2026-01-01T00:00:00.000Z'',
       endedAt = Some ''2026-01-01T00:00:01.000Z'', durationMs = Some 1000,
       toolCallCount = 3, llmRequestCount = 0, errorCount = 0, uniqueToolsUsed = [],
       cost = \<lparr>estimatedInputTokens = 0, estimatedOutputTokens = 0, estimatedTotalTokens = 0,
               inputCostUsd = fl (10 / 10000), outputCostUsd = 0, totalCostUsd = fl (10 / 10000), modelUsed = None\<rparr>,
       overallLatency = Some \<lparr>p50Ms = 100, p75Ms = 100, p95Ms = 100, p99Ms = 100, minMs = 100,
                       maxMs = 100, meanMs = 100, sampleCount = 1\<rparr>, toolBreakdown = []\<rparr>) = Some 0
   \<and> regressions (compareSessionSummaries
      \<lparr>sessionId = ''a'', label = None, startedAt = ''2026-01-01T00:00:00.000Z'',
       endedAt = Some ''2026-01-01T00:00:01.000Z'', durationMs = Some 1000,
       toolCallCount = 3, llmRequestCount = 0, errorCount = 0, uniqueToolsUsed = [],
       cost = \<lparr>estimatedInputTokens = 0, estimatedOutputTokens = 0, estimatedTotalTokens = 0,
               inputCostUsd = fl (10 / 10000), outputCostUsd = 0, totalCostUsd = fl (10 / 10000), modelUsed = None\<rparr>,
       overallLatency = Some \<lparr>p50Ms = 100, p75Ms = 100, p95Ms = 100, p99Ms = 100, minMs = 100,
                       maxMs = 100, meanMs = 100, sampleCount = 1\<rparr>, toolBreakdown = []\<rparr>
      \<lparr>sessionId = ''a'', label = None, startedAt = ''2026-01-01T00:00:00.000Z'',
       endedAt = Some ''2026-01-01T00:00:01.000Z'', durationMs = Some 1000,
       toolCallCount = 3, llmRequestCount = 0, errorCount = 0, uniqueToolsUsed = [],
       cost = \<lparr>estimatedInputTokens = 0, estimatedOutputTokens = 0, estimatedTotalTokens = 0,
               inputCostUsd = fl (10 / 10000), outputCostUsd = 0, totalCostUsd = fl (10 / 10000), modelUsed = None\<rparr>,
       overallLatency = Some \<lparr>p50Ms = 100, p75Ms = 100, p95Ms = 100, p99Ms = 100, minMs = 100,
                       maxMs = 100, meanMs = 100, sampleCount = 1\<rparr>, toolBreakdown = []\<rparr>) = []"
  using compareSessionSummaries_self[of
      "\<lparr>sessionId = ''a'', label = None, startedAt = ''2026-01-01T00:00:00.000Z'',
       endedAt = Some ''2026-01-01T00:00:01.000Z'', durationMs = Some 1000,
       toolCallCount = 3, llmRequestCount = 0, errorCount = 0, uniqueToolsUsed = [],
       cost = \<lparr>estimatedInputTokens = 0, estimatedOutputTokens = 0, estimatedTotalTokens = 0,
               inputCostUsd = fl (10 / 10000), outputCostUsd = 0, totalCostUsd = fl (10 / 10000), modelUsed = None\<rparr>,
       overallLatency = Some \<lparr>p50Ms = 100, p75Ms = 100, p95Ms = 100, p99Ms = 100, minMs = 100,
                       maxMs = 100, meanMs = 100, sampleCount = 1\<rparr>, toolBreakdown = []\<rparr>"]
  by simp

text \<open>The reported percentages are rounded from the binary64 delta: for durations of 8000
  and 10300 ms the delta is computed as 28.749999999999996 and reported as 28.7.\<close>

lemma compareSessionSummaries_duration_rounding:
  "durationDeltaPct (compareSessionSummaries
      \<lparr>sessionId = ''a'', label = None, startedAt = ''2026-01-01T00:00:00.000Z'',
       endedAt = Some ''2026-01-01T00:00:08.000Z'', durationMs = Some 8000,
       toolCallCount = 0, llmRequestCount = 0, errorCount = 0, uniqueToolsUsed = [],
       cost = \<lparr>estimatedInputTokens = 0, estimatedOutputTokens = 0, estimatedTotalTokens = 0,
               inputCostUsd = 0, outputCostUsd = 0, totalCostUsd = 0, modelUsed = None\<rparr>,
       overallLatency = None, toolBreakdown = []\<rparr>
      \<lparr>sessionId = ''b'', label = None, startedAt = ''2026-01-01T00:00:00.000Z'',
       endedAt = Some ''2026-01-01T00:00:10.300Z'', durationMs = Some 10300,
       toolCallCount = 0, llmRequestCount = 0, errorCount = 0, uniqueToolsUsed = [],
       cost = \<lparr>estimatedInputTokens = 0, estimatedOutputTokens = 0, estimatedTotalTokens = 0,
               inputCostUsd = 0, outputCostUsd = 0, totalCostUsd = 0, modelUsed = None\<rparr>,
       overallLatency = None, toolBreakdown = []\<rparr>) = Some (fl (287 / 10))"
  by (simp add: compareSessionSummaries_def Let_def p95DeltaPct_def math_round_def)
     (simp add: f64_eval)

text \<open>
  Claim C8.  The code does not give duration the zero-guard of cost.  With both durations
  known and a baseline duration of exactly 0 (compare duration 5), \<open>durationDeltaMs\<close> is 5
  and \<open>durationDeltaPct\<close> is \<open>null\<close>, where the claim has 0; in the same comparison the
  baseline cost is 0 and \<open>costDeltaPct\<close> is 0, and the baseline P95 latency is 0 and
  \<open>p95LatencyDeltaPct\<close> is 0.
\<close>

theorem compareSessionSummaries_zero_baseline:
  "durationDeltaMs (compareSessionSummaries
      \<lparr>sessionId = ''a'', label = None, startedAt = ''2026-01-01T00:00:00.000Z'',
       endedAt = Some ''2026-01-01T00:00:01.000Z'', durationMs = Some 0,
       toolCallCount = 0, llmRequestCount = 0, errorCount = 0, uniqueToolsUsed = [],
       cost = \<lparr>estimatedInputTokens = 0, estimatedOutputTokens = 0, estimatedTotalTokens = 0,
               inputCostUsd = 0, outputCostUsd = 0, totalCostUsd = 0, modelUsed = None\<rparr>,
       overallLatency = Some \<lparr>p50Ms = 0, p75Ms = 0, p95Ms = 0, p99Ms = 0, minMs = 0,
                       maxMs = 0, meanMs = 0, sampleCount = 1\<rparr>, toolBreakdown = []\<rparr>
      \<lparr>sessionId = ''b'', label = None, startedAt = ''2026-01-01T00:00:00.000Z'',
       endedAt = Some ''2026-01-01T00:00:01.000Z'', durationMs = Some 5,
       toolCallCount = 0, llmRequestCount = 0, errorCount = 0, uniqueToolsUsed = [],
       cost = \<lparr>estimatedInputTokens = 0, estimatedOutputTokens = 0, estimatedTotalTokens = 0,
               inputCostUsd = 1, outputCostUsd = 0, totalCostUsd = 1, modelUsed = None\<rparr>,
       overallLatency = Some \<lparr>p50Ms = 5, p75Ms = 5, p95Ms = 5, p99Ms = 5, minMs = 5,
                       maxMs = 5, meanMs = 5, sampleCount = 1\<rparr>, toolBreakdown = []\<rparr>) = Some 5
   \<and> durationDeltaPct (compareSessionSummaries
      \<lparr>sessionId = ''a'', label = None, startedAt = ''2026-01-01T00:00:00.000Z'',
       endedAt = Some ''2026-01-01T00:00:01.000Z'', durationMs = Some 0,
       toolCallCount = 0, llmRequestCount = 0, errorCount = 0, uniqueToolsUsed = [],
       cost = \<lparr>estimatedInputTokens = 0, estimatedOutputTokens = 0, estimatedTotalTokens = 0,
               inputCostUsd = 0, outputCostUsd = 0, totalCostUsd = 0, modelUsed = None\<rparr>,
       overallLatency = Some \<lparr>p50Ms = 0, p75Ms = 0, p95Ms = 0, p99Ms = 0, minMs = 0,
                       maxMs = 0, meanMs = 0, sampleCount = 1\<rparr>, toolBreakdown = []\<rparr>
      \<lparr>sessionId = ''b'', label = None, startedAt = ''2026-01-01T00:00:00.000Z'',
       endedAt = Some ''2026-01-01T00:00:01.000Z'', durationMs = Some 5,
       toolCallCount = 0, llmRequestCount = 0, errorCount = 0, uniqueToolsUsed = [],
       cost = \<lparr>estimatedInputTokens = 0, estimatedOutputTokens = 0, estimatedTotalTokens = 0,
               inputCostUsd = 1, outputCostUsd = 0, totalCostUsd = 1, modelUsed = None\<rparr>,
       overallLatency = Some \<lparr>p50Ms = 5, p75Ms = 5, p95Ms = 5, p99Ms = 5, minMs = 5,
                       maxMs = 5, meanMs = 5, sampleCount = 1\<rparr>, toolBreakdown = []\<rparr>) = None
   \<and> costDeltaPct (compareSessionSummaries
      \<lparr>sessionId = ''a'', label = None, startedAt = ''2026-01-01T00:00:00.000Z'',
       endedAt = Some ''2026-01-01T00:00:01.000Z'', durationMs = Some 0,
       toolCallCount = 0, llmRequestCount = 0, errorCount = 0, uniqueToolsUsed = [],
       cost = \<lparr>estimatedInputTokens = 0, estimatedOutputTokens = 0, estimatedTotalTokens = 0,
               inputCostUsd = 0, outputCostUsd = 0, totalCostUsd = 0, modelUsed = None\<rparr>,
       overallLatency = Some \<lparr>p50Ms = 0, p75Ms = 0, p95Ms = 0, p99Ms = 0, minMs = 0,
                       maxMs = 0, meanMs = 0, sampleCount = 1\<rparr>, toolBreakdown = []\<rparr>
      \<lparr>sessionId = ''b'', label = None, startedAt = ''2026-01-01T00:00:00.000Z'',
       endedAt = Some ''2026-01-01T00:00:01.000Z'', durationMs = Some 5,
       toolCallCount = 0, llmRequestCount = 0, errorCount = 0, uniqueToolsUsed = [],
       cost = \<lparr>estimatedInputTokens = 0, estimatedOutputTokens = 0, estimatedTotalTokens = 0,
               inputCostUsd = 1, outputCostUsd = 0, totalCostUsd = 1, modelUsed = None\<rparr>,
       overallLatency = Some \<lparr>p50Ms = 5, p75Ms = 5, p95Ms = 5, p99Ms = 5, minMs = 5,
                       maxMs = 5, meanMs = 5, sampleCount = 1\<rparr>, toolBreakdown = []\<rparr>) = 0
   \<and> p95LatencyDeltaPct (compareSessionSummaries
      \<lparr>sessionId = ''a'', label = None, startedAt = ''2026-01-01T00:00:00.000Z'',
       endedAt = Some ''2026-01-01T00:00:01.000Z'', durationMs = Some 0,
       toolCallCount = 0, llmRequestCount = 0, errorCount = 0, uniqueToolsUsed = [],
       cost = \<lparr>estimatedInputTokens = 0, estimatedOutputTokens = 0, estimatedTotalTokens = 0,
               inputCostUsd = 0, outputCostUsd = 0, totalCostUsd = 0, modelUsed = None\<rparr>,
       overallLatency = Some \<lparr>p50Ms = 0, p75Ms = 0, p95Ms = 0, p99Ms = 0, minMs = 0,
                       maxMs = 0, meanMs = 0, sampleCount = 1\<rparr>, toolBreakdown = []\<rparr>
      \<lparr>sessionId = ''b'', label = None, startedAt = ''2026-01-01T00:00:00.000Z'',
       endedAt = Some ''2026-01-01T00:00:01.000Z'', durationMs = Some 5,
       toolCallCount = 0, llmRequestCount = 0, errorCount = 0, uniqueToolsUsed = [],
       cost = \<lparr>estimatedInputTokens = 0, estimatedOutputTokens = 0, estimatedTotalTokens = 0,
               inputCostUsd = 1, outputCostUsd = 0, totalCostUsd = 1, modelUsed = None\<rparr>,
       overallLatency = Some \<lparr>p50Ms = 5, p75Ms = 5, p95Ms = 5, p99Ms = 5, minMs = 5,
                       maxMs = 5, meanMs = 5, sampleCount = 1\<rparr>, toolBreakdown = []\<rparr>) = Some 0"
  by (simp add: compareSessionSummaries_def Let_def p95DeltaPct_def math_round_def)
     (simp add: f64_eval)

section \<open>Properties of the aggregator\<close>

lemma set_map_set_subset: "set (map_set m k v) \<subseteq> insert (k, v) (set m)"
  by (induction m) (auto split: if_splits)

lemma map_get_SomeD: "map_get m k = Some v \<Longrightarrow> (k, v) \<in> set m"
  by (simp add: map_get_def map_of_SomeD)

lemma groupRows_errors:
  "list_all (\<lambda>row. error row = 0) rows \<Longrightarrow> list_all (\<lambda>e. errors (snd e) = 0) grouped
   \<Longrightarrow> list_all (\<lambda>e. errors (snd e) = 0) (groupRows rows grouped)"
proof (induction rows arbitrary: grouped)
  case Nil
  then show ?case by simp
next
  case (Cons row rows)
  define bucket where
    "bucket = nullish (map_get grouped (tool_name row)) \<lparr>durations = [], errors = 0\<rparr>"
  have "errors bucket = 0"
  proof (cases "map_get grouped (tool_name row)")
    case None
    then show ?thesis by (simp add: bucket_def nullish_def)
  next
    case (Some b)
    then have "(tool_name row, b) \<in> set grouped" by (rule map_get_SomeD)
    with Cons.prems(2) have "errors b = 0" by (auto simp: list_all_iff)
    with Some show ?thesis by (simp add: bucket_def nullish_def)
  qed
  then have "list_all (\<lambda>e. errors (snd e) = 0)
     (map_set grouped (tool_name row) (bucket\<lparr>durations := durations bucket @ [duration_ms row]\<rparr>))"
    using Cons.prems(2) set_map_set_subset[of grouped "tool_name row"
        "bucket\<lparr>durations := durations bucket @ [duration_ms row]\<rparr>"]
    by (auto simp: list_all_iff)
  moreover have "list_all (\<lambda>row. error row = 0) rows" and "error row = 0"
    using Cons.prems(1) by simp_all
  ultimately show ?case
    using Cons.IH by (simp add: Let_def bucket_def)
qed

lemma collectStats_errorRate:
  "list_all (\<lambda>e. errors (snd e) = 0) entries \<Longrightarrow> list_all (\<lambda>r. errorRate r = 0) results
   \<Longrightarrow> list_all (\<lambda>r. errorRate r = 0) (collectStats entries results)"
  by (induction entries results rule: collectStats.induct)
     (auto simp: fdiv_def fl_0 split: option.splits)

lemma computeToolLatencyStats_errorRate:
  assumes "list_all (\<lambda>row. error row = 0) rows"
  shows "list_all (\<lambda>r. errorRate r = 0) (computeToolLatencyStats rows)"
proof -
  have "list_all (\<lambda>r. errorRate r = 0) (collectStats (groupRows rows []) [])"
    using assms by (intro collectStats_errorRate groupRows_errors) simp_all
  then show ?thesis
    by (simp add: computeToolLatencyStats_def list_all_iff)
qed

text \<open>
  Claim C10.  In every session summary that \<open>buildSessionSummary\<close> produces, every entry
  of the per-tool breakdown has an \<open>errorRate\<close> of 0, whatever \<open>ERROR\<close> events and
  \<open>TOOL_END\<close> events with an error message the session contains: the rows of the session's
  durations are given the error flag 0.
\<close>

theorem buildSessionSummary_errorRate_zero:
  assumes "buildSessionSummary getTime table db sessionIdent = Some summary"
  shows "\<forall>t\<in>set (toolBreakdown summary). errorRate t = 0"
proof -
  define allToolRows where
    "allToolRows = map (\<lambda>r. \<lparr>tool_name = tool_name r, duration_ms = duration_ms r, error = 0\<rparr>)
           (toolDurations db sessionIdent)"
  have eq: "toolBreakdown summary = computeToolLatencyStats allToolRows"
    using assms
    by (auto simp: buildSessionSummary_def Let_def allToolRows_def split: option.splits)
  have "list_all (\<lambda>row. error row = 0) allToolRows"
    by (simp add: list_all_iff allToolRows_def)
  then have "list_all (\<lambda>r. errorRate r = 0) (computeToolLatencyStats allToolRows)"
    by (rule computeToolLatencyStats_errorRate)
  then show ?thesis
    unfolding eq by (simp add: list_all_iff)
qed

theorem buildSessionSummary_errorRate_zero_witness:
  "map_option (map (\<lambda>t. (toolName t, callCount t, errorRate t)) \<circ> toolBreakdown)
     (buildSessionSummary (\<lambda>s. 0) default_table
     \<lparr>sessions = [\<lparr>sess_id = ''s1'', sess_label = None, sess_model = None,
                sess_started_at = ''2026-01-01T00:00:00.000Z'', sess_ended_at = None,
                sess_metadata_json = ''{}''\<rparr>],
      events = [\<lparr>ev_id = ''e1'', ev_session_id = ''s1'', ev_event_type = TOOL_END,
                 ev_tool_name = Some ''shell'', ev_model = None, ev_prompt_chars = None,
                 ev_response_chars = None, ev_duration_ms = Some 100,
                 ev_error_message = Some ''failed'', ev_metadata_json = ''{}'',
                 ev_recorded_at = ''2026-01-01T00:00:01.000Z''\<rparr>,
                \<lparr>ev_id = ''e2'', ev_session_id = ''s1'', ev_event_type = ERROR,
                 ev_tool_name = None, ev_model = None, ev_prompt_chars = None,
                 ev_response_chars = None, ev_duration_ms = None,
                 ev_error_message = Some ''failed'', ev_metadata_json = ''{}'',
                 ev_recorded_at = ''2026-01-01T00:00:02.000Z''\<rparr>],
      budget_config = \<lparr>budget_id = 1, max_per_session_usd = 0, max_per_day_usd = 0,
                 alert_threshold_pct = 80, updated_at = ''2026-01-01 00:00:00''\<rparr>\<rparr> ''s1'')
   = Some [(''shell'', 1, 0)]
   \<and> map error (allToolDurations
     \<lparr>sessions = [\<lparr>sess_id = ''s1'', sess_label = None, sess_model = None,
                sess_started_at = ''2026-01-01T00:00:00.000Z'', sess_ended_at = None,
                sess_metadata_json = ''{}''\<rparr>],
      events = [\<lparr>ev_id = ''e1'', ev_session_id = ''s1'', ev_event_type = TOOL_END,
                 ev_tool_name = Some ''shell'', ev_model = None, ev_prompt_chars = None,
                 ev_response_chars = None, ev_duration_ms = Some 100,
                 ev_error_message = Some ''failed'', ev_metadata_json = ''{}'',
                 ev_recorded_at = ''2026-01-01T00:00:01.000Z''\<rparr>,
                \<lparr>ev_id = ''e2'', ev_session_id = ''s1'', ev_event_type = ERROR,
                 ev_tool_name = None, ev_model = None, ev_prompt_chars = None,
                 ev_response_chars = None, ev_duration_ms = None,
                 ev_error_message = Some ''failed'', ev_metadata_json = ''{}'',
                 ev_recorded_at = ''2026-01-01T00:00:02.000Z''\<rparr>],
      budget_config = \<lparr>budget_id = 1, max_per_session_usd = 0, max_per_day_usd = 0,
                 alert_threshold_pct = 80, updated_at = ''2026-01-01 00:00:00''\<rparr>\<rparr>) = [1]"
proof -
  let ?db = "\<lparr>sessions = [\<lparr>sess_id = ''s1'', sess_label = None, sess_model = None,
                sess_started_at = ''2026-01-01T00:00:00.000Z'', sess_ended_at = None,
                sess_metadata_json = ''{}''\<rparr>],
      events = [\<lparr>ev_id = ''e1'', ev_session_id = ''s1'', ev_event_type = TOOL_END,
                 ev_tool_name = Some ''shell'', ev_model = None, ev_prompt_chars = None,
                 ev_response_chars = None, ev_duration_ms = Some 100,
                 ev_error_message = Some ''failed'', ev_metadata_json = ''{}'',
                 ev_recorded_at = ''2026-01-01T00:00:01.000Z''\<rparr>,
                \<lparr>ev_id = ''e2'', ev_session_id = ''s1'', ev_event_type = ERROR,
                 ev_tool_name = None, ev_model = None, ev_prompt_chars = None,
                 ev_response_chars = None, ev_duration_ms = None,
                 ev_error_message = Some ''failed'', ev_metadata_json = ''{}'',
                 ev_recorded_at = ''2026-01-01T00:00:02.000Z''\<rparr>],
      budget_config = \<lparr>budget_id = 1, max_per_session_usd = 0, max_per_day_usd = 0,
                 alert_threshold_pct = 80, updated_at = ''2026-01-01 00:00:00''\<rparr>\<rparr>"
  let ?table = "default_table"
  obtain summary where s: "buildSessionSummary (\<lambda>s. 0) ?table ?db ''s1'' = Some summary"
    by (simp add: buildSessionSummary_def sessions_getById_def Let_def)
  have names: "map toolName (toolBreakdown summary) = [''shell'']"
    and counts: "map callCount (toolBreakdown summary) = [1]"
    using s
    by (auto simp: buildSessionSummary_def sessions_getById_def Let_def toolDurations_def
        List.map_filter_def computeToolLatencyStats_def nullish_def map_get_def
        computePercentiles_def percentile_def)
  have rates: "\<forall>t\<in>set (toolBreakdown summary). errorRate t = 0"
    using buildSessionSummary_errorRate_zero[OF s] .
  obtain t where t: "toolBreakdown summary = [t]"
    using names by (cases "toolBreakdown summary") auto
  have 1: "map (\<lambda>t. (toolName t, callCount t, errorRate t)) (toolBreakdown summary)
      = [(''shell'', 1, 0)]"
    using names counts rates by (simp add: t)
  have 2: "map error (allToolDurations ?db) = [1]"
    by (simp add: allToolDurations_def List.map_filter_def)
  show ?thesis
    unfolding s using 1 2 by simp
qed

section \<open>Properties of ending a session\<close>

lemma getById_sessions_end:
  "sessions_getById db ident = Some session \<Longrightarrow>
   sessions_getById (sessions_end db ident endedAtVal) ident
     = Some (session\<lparr>sess_ended_at := Some endedAtVal\<rparr>)"
proof -
  have "find (\<lambda>s. sess_id s = ident) xs = Some session \<Longrightarrow>
        find (\<lambda>s. sess_id s = ident)
          (map (\<lambda>s. if sess_id s = ident then s\<lparr>sess_ended_at := Some endedAtVal\<rparr> else s) xs)
        = Some (session\<lparr>sess_ended_at := Some endedAtVal\<rparr>)" for xs
    by (induction xs) (auto split: if_splits)
  then show "sessions_getById db ident = Some session \<Longrightarrow> ?thesis"
    by (simp add: sessions_getById_def sessions_end_def)
qed

lemma getById_events_insert:
  "events_insert db row = Inr db' \<Longrightarrow> sessions_getById db' ident = sessions_getById db ident"
  by (auto simp: events_insert_def sessions_getById_def split: if_splits)

lemma handleEndSession_already:
  assumes "sessions_getById db ident = Some session" and "sess_ended_at session = Some ended"
    and "ended \<noteq> []"
  shows "handleEndSession getTime table now eventIdent ident db
           = (Inr (SessionAlreadyEnded ident ended), db)"
  using assms by (simp add: handleEndSession_def)

lemma handleEndSession_ended:
  assumes "handleEndSession getTime table now eventIdent ident db = (Inr (SessionEnded summary), db')"
  shows "\<exists>session. sessions_getById db' ident = Some session \<and> sess_ended_at session = Some now"
proof -
  from assms obtain session where
    s: "sessions_getById db ident = Some session"
    and ins: "endSessionWrites ident now eventIdent db = Inr db'"
    by (auto simp: handleEndSession_def transaction_def split: option.splits if_splits sum.splits)
  have "sessions_getById db' ident = Some (session\<lparr>sess_ended_at := Some now\<rparr>)"
    using getById_events_insert[OF ins[unfolded endSessionWrites_def]] getById_sessions_end[OF s]
    by simp
  then show ?thesis by simp
qed

text \<open>
  Claim C9.  After a call of \<open>handleEndSession\<close> that ended the session, a second call
  on the same session id, at any later time and with any event id, answers that the
  session was already ended (at the time of the first call) and leaves the database as it
  is: no field of a session changes, the end timestamp stays the one that was set, and
  no event is inserted.
\<close>

theorem handleEndSession_twice:
  assumes now: "now \<noteq> []"
    and first: "handleEndSession getTime table now eventIdent ident db
                  = (Inr (SessionEnded summary), db')"
  shows "handleEndSession getTime table now2 eventIdent2 ident db'
           = (Inr (SessionAlreadyEnded ident now), db')
       \<and> map_option sess_ended_at (sessions_getById db' ident) = Some (Some now)"
proof -
  from handleEndSession_ended[OF first] obtain session where
    s: "sessions_getById db' ident = Some session" "sess_ended_at session = Some now"
    by blast
  then have "handleEndSession getTime table now2 eventIdent2 ident db'
           = (Inr (SessionAlreadyEnded ident now), db')"
    using now by (rule handleEndSession_already)
  with s show ?thesis by simp
qed

theorem handleEndSession_twice_witness:
  "''2026-01-01T00:05:00.000Z'' \<noteq> []
   \<and> handleEndSession (\<lambda>s. 0) default_table
       ''2026-01-01T00:09:00.000Z'' ''e3'' ''s1''
       (snd (handleEndSession (\<lambda>s. 0) default_table
          ''2026-01-01T00:05:00.000Z'' ''e2'' ''s1''
          \<lparr>sessions = [\<lparr>sess_id = ''s1'', sess_label = None, sess_model = None,
                    sess_started_at = ''2026-01-01T00:00:00.000Z'', sess_ended_at = None,
                    sess_metadata_json = ''{}''\<rparr>],
          events = [\<lparr>ev_id = ''e1'', ev_session_id = ''s1'', ev_event_type = LLM_REQUEST,
                     ev_tool_name = None, ev_model = None, ev_prompt_chars = Some 40000,
                     ev_response_chars = None, ev_duration_ms = None,
                     ev_error_message = None, ev_metadata_json = ''{}'',
                     ev_recorded_at = ''2026-01-01T00:00:01.000Z''\<rparr>],
          budget_config = \<lparr>budget_id = 1, max_per_session_usd = 0,
                     max_per_day_usd = fl (5 / 10000), alert_threshold_pct = 80,
                     updated_at = ''2026-01-01 00:00:00''\<rparr>\<rparr>))
     = (Inr (SessionAlreadyEnded ''s1'' ''2026-01-01T00:05:00.000Z''),
        snd (handleEndSession (\<lambda>s. 0) default_table
          ''2026-01-01T00:05:00.000Z'' ''e2'' ''s1''
          \<lparr>sessions = [\<lparr>sess_id = ''s1'', sess_label = None, sess_model = None,
                    sess_started_at = ''2026-01-01T00:00:00.000Z'', sess_ended_at = None,
                    sess_metadata_json = ''{}''\<rparr>],
          events = [\<lparr>ev_id = ''e1'', ev_session_id = ''s1'', ev_event_type = LLM_REQUEST,
                     ev_tool_name = None, ev_model = None, ev_prompt_chars = Some 40000,
                     ev_response_chars = None, ev_duration_ms = None,
                     ev_error_message = None, ev_metadata_json = ''{}'',
                     ev_recorded_at = ''2026-01-01T00:00:01.000Z''\<rparr>],
          budget_config = \<lparr>budget_id = 1, max_per_session_usd = 0,
                     max_per_day_usd = fl (5 / 10000), alert_threshold_pct = 80,
                     updated_at = ''2026-01-01 00:00:00''\<rparr>\<rparr>))
   \<and> map ev_event_type (events (snd (handleEndSession (\<lambda>s. 0) default_table
          ''2026-01-01T00:05:00.000Z'' ''e2'' ''s1''
          \<lparr>sessions = [\<lparr>sess_id = ''s1'', sess_label = None, sess_model = None,
                    sess_started_at = ''2026-01-01T00:00:00.000Z'', sess_ended_at = None,
                    sess_metadata_json = ''{}''\<rparr>],
          events = [\<lparr>ev_id = ''e1'', ev_session_id = ''s1'', ev_event_type = LLM_REQUEST,
                     ev_tool_name = None, ev_model = None, ev_prompt_chars = Some 40000,
                     ev_response_chars = None, ev_duration_ms = None,
                     ev_error_message = None, ev_metadata_json = ''{}'',
                     ev_recorded_at = ''2026-01-01T00:00:01.000Z''\<rparr>],
          budget_config = \<lparr>budget_id = 1, max_per_session_usd = 0,
                     max_per_day_usd = fl (5 / 10000), alert_threshold_pct = 80,
                     updated_at = ''2026-01-01 00:00:00''\<rparr>\<rparr>))) = [LLM_REQUEST, SESSION_END]"
proof -
  let ?db = "\<lparr>sessions = [\<lparr>sess_id = ''s1'', sess_label = None, sess_model = None,
                    sess_started_at = ''2026-01-01T00:00:00.000Z'', sess_ended_at = None,
                    sess_metadata_json = ''{}''\<rparr>],
          events = [\<lparr>ev_id = ''e1'', ev_session_id = ''s1'', ev_event_type = LLM_REQUEST,
                     ev_tool_name = None, ev_model = None, ev_prompt_chars = Some 40000,
                     ev_response_chars = None, ev_duration_ms = None,
                     ev_error_message = None, ev_metadata_json = ''{}'',
                     ev_recorded_at = ''2026-01-01T00:00:01.000Z''\<rparr>],
          budget_config = \<lparr>budget_id = 1, max_per_session_usd = 0,
                     max_per_day_usd = fl (5 / 10000), alert_threshold_pct = 80,
                     updated_at = ''2026-01-01 00:00:00''\<rparr>\<rparr>"
  let ?first = "handleEndSession (\<lambda>s. 0) default_table
          ''2026-01-01T00:05:00.000Z'' ''e2'' ''s1'' ?db"
  have now: "''2026-01-01T00:05:00.000Z'' \<noteq> []" by simp
  obtain summary db' where first: "?first = (Inr (SessionEnded summary), db')"
    by (simp add: handleEndSession_def sessions_getById_def transaction_def endSessionWrites_def
        events_insert_def sessions_end_def)
  have ev: "map ev_event_type (events (snd ?first)) = [LLM_REQUEST, SESSION_END]"
    by (simp add: handleEndSession_def sessions_getById_def transaction_def endSessionWrites_def
        events_insert_def sessions_end_def)
  show ?thesis
    using handleEndSession_twice[OF now first, of "''2026-01-01T00:09:00.000Z''" "''e3''"] ev now
    unfolding first by simp
qed

section \<open>Properties of the budget check\<close>

lemma checkBudget_fst:
  "fst (checkBudget table sql_date today sessionIdent db) =
     (if session_threshold_crossed table db sessionIdent
      then Some (SessionBudgetWarning (session_cost table db sessionIdent)
                   (math_round (fmul (fdiv (session_cost table db sessionIdent)
                                        (max_per_session_usd (budget_config db))) 100))
                   (max_per_session_usd (budget_config db)))
      else if day_threshold_crossed table sql_date db today
      then Some (DailyBudgetWarning (daily_cost table sql_date db today)
                   (math_round (fmul (fdiv (daily_cost table sql_date db today)
                                        (max_per_day_usd (budget_config db))) 100))
                   (max_per_day_usd (budget_config db)))
      else None)"
  by (simp add: checkBudget_def Let_def session_threshold_crossed_def day_threshold_crossed_def
      session_cost_def daily_cost_def budget_get_def)

lemma checkBudget_snd:
  "snd (checkBudget table sql_date today sessionIdent db) =
     (if max_per_session_usd (budget_config db) \<le> 0 \<and> max_per_day_usd (budget_config db) \<le> 0
      then [QBudgetGet]
      else if session_threshold_crossed table db sessionIdent
              \<or> \<not> max_per_day_usd (budget_config db) > 0
      then [QBudgetGet, QLlmChars sessionIdent]
      else [QBudgetGet, QLlmChars sessionIdent, QDailyLlmChars today])"
  by (simp add: checkBudget_def Let_def session_threshold_crossed_def day_threshold_crossed_def
      session_cost_def daily_cost_def budget_get_def)

lemma cost_40000:
  "totalCostUsd (computeCost default_table
     [\<lparr>prompt_chars = Some 40000, response_chars = None, model = None\<rparr>]) = fl (75 / 100000)"
  by (simp add: computeCost_def pricingFor_def DEFAULT_PRICING_def PRICING_def default_table_def
        envFloat_def Let_def nullish_def estimateTokens_def math_ceil_def roundUsd_def
        math_round_def)
     (simp add: f64_eval)

lemma cost_40000_day:
  "totalCostUsd (computeCost default_table
     [\<lparr>prompt_chars = Some 40000, response_chars = None, model = None\<rparr>,
      \<lparr>prompt_chars = None, response_chars = Some 0, model = None\<rparr>]) = fl (75 / 100000)"
  by (simp add: computeCost_def pricingFor_def DEFAULT_PRICING_def PRICING_def default_table_def
        envFloat_def Let_def nullish_def estimateTokens_def math_ceil_def roundUsd_def
        math_round_def)
     (simp add: f64_eval)

lemma cost_64000:
  "totalCostUsd (computeCost default_table
     [\<lparr>prompt_chars = Some 64000, response_chars = None, model = None\<rparr>]) = fl (12 / 10000)"
  by (simp add: computeCost_def pricingFor_def DEFAULT_PRICING_def PRICING_def default_table_def
        envFloat_def Let_def nullish_def estimateTokens_def math_ceil_def roundUsd_def
        math_round_def)
     (simp add: f64_eval)

lemma cost_64000_day:
  "totalCostUsd (computeCost default_table
     [\<lparr>prompt_chars = Some 64000, response_chars = None, model = None\<rparr>,
      \<lparr>prompt_chars = None, response_chars = Some 0, model = None\<rparr>]) = fl (12 / 10000)"
  by (simp add: computeCost_def pricingFor_def DEFAULT_PRICING_def PRICING_def default_table_def
        envFloat_def Let_def nullish_def estimateTokens_def math_ceil_def roundUsd_def
        math_round_def)
     (simp add: f64_eval)

lemma threshold_5:
  "0 < fl (5 / 10000)"
  "fmul (fl (5 / 10000)) (fdiv 80 100) \<le> fl (75 / 100000)"
  "math_round (fmul (fdiv (fl (75 / 100000)) (fl (5 / 10000))) 100) = 150"
  by (simp_all add: math_round_def f64_eval)

lemma threshold_15:
  "0 < fl (15 / 10000)"
  "fl (12 / 10000) < fmul (fl (15 / 10000)) (fdiv 80 100)"
  "fmul (fl (15 / 10000)) (fdiv 80 100) - fl (12 / 10000) = 1 / 2 ^ 62"
  by (simp_all add: f64_eval)

text \<open>
  Claim C7 as it is written fails.  In a store where the threshold fractions of both caps
  are crossed, \<open>checkBudget\<close> returns the session warning alone and never reads the day's
  characters: the check of the day is not evaluated.
\<close>

theorem checkBudget_first_warning_only_counterexample:
  "session_threshold_crossed default_table
      \<lparr>sessions = [\<lparr>sess_id = ''s1'', sess_label = None, sess_model = None,
                sess_started_at = ''2026-01-01T00:00:00.000Z'', sess_ended_at = None,
                sess_metadata_json = ''{}''\<rparr>],
      events = [\<lparr>ev_id = ''e1'', ev_session_id = ''s1'', ev_event_type = LLM_REQUEST,
                 ev_tool_name = None, ev_model = None, ev_prompt_chars = Some 40000,
                 ev_response_chars = None, ev_duration_ms = None,
                 ev_error_message = None, ev_metadata_json = ''{}'',
                 ev_recorded_at = ''2026-01-01T00:00:01.000Z''\<rparr>],
      budget_config = \<lparr>budget_id = 1, max_per_session_usd = fl (5 / 10000),
                 max_per_day_usd = fl (5 / 10000), alert_threshold_pct = 80,
                 updated_at = ''2026-01-01 00:00:00''\<rparr>\<rparr> ''s1''
   \<and> day_threshold_crossed default_table iso_date
      \<lparr>sessions = [\<lparr>sess_id = ''s1'', sess_label = None, sess_model = None,
                sess_started_at = ''2026-01-01T00:00:00.000Z'', sess_ended_at = None,
                sess_metadata_json = ''{}''\<rparr>],
      events = [\<lparr>ev_id = ''e1'', ev_session_id = ''s1'', ev_event_type = LLM_REQUEST,
                 ev_tool_name = None, ev_model = None, ev_prompt_chars = Some 40000,
                 ev_response_chars = None, ev_duration_ms = None,
                 ev_error_message = None, ev_metadata_json = ''{}'',
                 ev_recorded_at = ''2026-01-01T00:00:01.000Z''\<rparr>],
      budget_config = \<lparr>budget_id = 1, max_per_session_usd = fl (5 / 10000),
                 max_per_day_usd = fl (5 / 10000), alert_threshold_pct = 80,
                 updated_at = ''2026-01-01 00:00:00''\<rparr>\<rparr> ''2026-01-01''
   \<and> checkBudget default_table iso_date ''2026-01-01'' ''s1''
      \<lparr>sessions = [\<lparr>sess_id = ''s1'', sess_label = None, sess_model = None,
                sess_started_at = ''2026-01-01T00:00:00.000Z'', sess_ended_at = None,
                sess_metadata_json = ''{}''\<rparr>],
      events = [\<lparr>ev_id = ''e1'', ev_session_id = ''s1'', ev_event_type = LLM_REQUEST,
                 ev_tool_name = None, ev_model = None, ev_prompt_chars = Some 40000,
                 ev_response_chars = None, ev_duration_ms = None,
                 ev_error_message = None, ev_metadata_json = ''{}'',
                 ev_recorded_at = ''2026-01-01T00:00:01.000Z''\<rparr>],
      budget_config = \<lparr>budget_id = 1, max_per_session_usd = fl (5 / 10000),
                 max_per_day_usd = fl (5 / 10000), alert_threshold_pct = 80,
                 updated_at = ''2026-01-01 00:00:00''\<rparr>\<rparr>
     = (Some (SessionBudgetWarning (fl (75 / 100000)) 150 (fl (5 / 10000))),
        [QBudgetGet, QLlmChars ''s1''])"
proof -
  define db where "db = \<lparr>sessions = [\<lparr>sess_id = ''s1'', sess_label = None, sess_model = None,
                sess_started_at = ''2026-01-01T00:00:00.000Z'', sess_ended_at = None,
                sess_metadata_json = ''{}''\<rparr>],
      events = [\<lparr>ev_id = ''e1'', ev_session_id = ''s1'', ev_event_type = LLM_REQUEST,
                 ev_tool_name = None, ev_model = None, ev_prompt_chars = Some 40000,
                 ev_response_chars = None, ev_duration_ms = None,
                 ev_error_message = None, ev_metadata_json = ''{}'',
                 ev_recorded_at = ''2026-01-01T00:00:01.000Z''\<rparr>],
      budget_config = \<lparr>budget_id = 1, max_per_session_usd = fl (5 / 10000),
                 max_per_day_usd = fl (5 / 10000), alert_threshold_pct = 80,
                 updated_at = ''2026-01-01 00:00:00''\<rparr>\<rparr>"
  let ?r = "checkBudget default_table iso_date ''2026-01-01'' ''s1'' db"
  have caps: "max_per_session_usd (budget_config db) = fl (5 / 10000)"
    "max_per_day_usd (budget_config db) = fl (5 / 10000)"
    "alert_threshold_pct (budget_config db) = 80"
    by (simp_all add: db_def)
  have rows: "llmChars db ''s1''
      = [\<lparr>prompt_chars = Some 40000, response_chars = None, model = None\<rparr>]"
    by (simp add: llmChars_def db_def)
  have day: "dailyLlmChars iso_date db ''2026-01-01''
      = \<lparr>promptChars = 40000, responseChars = 0\<rparr>"
    by (simp add: dailyLlmChars_def sessions_getById_def iso_date_def nullish_def db_def)
  have sc: "session_cost default_table db ''s1'' = fl (75 / 100000)"
    unfolding session_cost_def rows by (rule cost_40000)
  have dc: "daily_cost default_table iso_date db ''2026-01-01'' = fl (75 / 100000)"
    unfolding daily_cost_def day using cost_40000_day by simp
  have s: "session_threshold_crossed default_table db ''s1''"
    unfolding session_threshold_crossed_def sc caps using threshold_5(1,2) by (intro conjI)
  have d: "day_threshold_crossed default_table iso_date db ''2026-01-01''"
    unfolding day_threshold_crossed_def dc caps using threshold_5(1,2) by (intro conjI)
  have f: "fst ?r = Some (SessionBudgetWarning (fl (75 / 100000)) 150 (fl (5 / 10000)))"
    unfolding checkBudget_fst sc caps threshold_5(3) using s by simp
  have q: "snd ?r = [QBudgetGet, QLlmChars ''s1'']"
    unfolding checkBudget_snd caps using s threshold_5(1) by simp
  have "?r = (Some (SessionBudgetWarning (fl (75 / 100000)) 150 (fl (5 / 10000))),
        [QBudgetGet, QLlmChars ''s1''])"
    using f q by (simp add: prod_eq_iff)
  with s d show ?thesis
    unfolding db_def by (intro conjI)
qed

text \<open>
  Claim C7, amended.  \<open>checkBudget\<close> performs the check of the session first and the check
  of the day second, and returns at the first warning: when the threshold of the session
  cap is crossed it returns the session warning and does not evaluate the check of the
  day; otherwise, when the daily cap is enabled, it reads the day's characters and returns
  the daily warning if the threshold of the daily cap is crossed, and no warning if not.
  A call returns at most one warning.  A threshold is crossed when the cap is positive and
  the cost is at least the threshold that the code computes, \<open>cap * (pct / 100)\<close> with the
  division and the product each rounded as binary64 rounds; this can be above the exact
  fraction of the cap, so that a cost exactly at the fraction need not cross it (a cost of
  0.0012 against 80 percent of 0.0015: the computed threshold is 0.0012000000000000001).
\<close>

theorem checkBudget_session_then_day:
  "fst (checkBudget table sql_date today sessionIdent db) =
     (if session_threshold_crossed table db sessionIdent
      then Some (SessionBudgetWarning (session_cost table db sessionIdent)
                   (math_round (fmul (fdiv (session_cost table db sessionIdent)
                                        (max_per_session_usd (budget_config db))) 100))
                   (max_per_session_usd (budget_config db)))
      else if day_threshold_crossed table sql_date db today
      then Some (DailyBudgetWarning (daily_cost table sql_date db today)
                   (math_round (fmul (fdiv (daily_cost table sql_date db today)
                                        (max_per_day_usd (budget_config db))) 100))
                   (max_per_day_usd (budget_config db)))
      else None)
   \<and> (QDailyLlmChars today \<in> set (snd (checkBudget table sql_date today sessionIdent db))
        \<longleftrightarrow> \<not> session_threshold_crossed table db sessionIdent
            \<and> max_per_day_usd (budget_config db) > 0)
   \<and> prefix (snd (checkBudget table sql_date today sessionIdent db))
        [QBudgetGet, QLlmChars sessionIdent, QDailyLlmChars today]
   \<and> (session_threshold_crossed table db sessionIdent
        \<longleftrightarrow> max_per_session_usd (budget_config db) > 0
            \<and> session_cost table db sessionIdent
                \<ge> fl (max_per_session_usd (budget_config db)
                       * fl (alert_threshold_pct (budget_config db) / 100)))
   \<and> (day_threshold_crossed table sql_date db today
        \<longleftrightarrow> max_per_day_usd (budget_config db) > 0
            \<and> daily_cost table sql_date db today
                \<ge> fl (max_per_day_usd (budget_config db)
                       * fl (alert_threshold_pct (budget_config db) / 100)))"
proof -
  have 1: "QDailyLlmChars today \<in> set (snd (checkBudget table sql_date today sessionIdent db))
        \<longleftrightarrow> \<not> session_threshold_crossed table db sessionIdent
            \<and> max_per_day_usd (budget_config db) > 0"
    unfolding checkBudget_snd by (auto simp: session_threshold_crossed_def)
  have 2: "prefix (snd (checkBudget table sql_date today sessionIdent db))
        [QBudgetGet, QLlmChars sessionIdent, QDailyLlmChars today]"
    unfolding checkBudget_snd by simp
  have 3: "session_threshold_crossed table db sessionIdent
        \<longleftrightarrow> max_per_session_usd (budget_config db) > 0
            \<and> session_cost table db sessionIdent
                \<ge> fl (max_per_session_usd (budget_config db)
                       * fl (alert_threshold_pct (budget_config db) / 100))"
    by (simp add: session_threshold_crossed_def fmul_def fdiv_def)
  have 4: "day_threshold_crossed table sql_date db today
        \<longleftrightarrow> max_per_day_usd (budget_config db) > 0
            \<and> daily_cost table sql_date db today
                \<ge> fl (max_per_day_usd (budget_config db)
                       * fl (alert_threshold_pct (budget_config db) / 100))"
    by (simp add: day_threshold_crossed_def fmul_def fdiv_def)
  show ?thesis
    using checkBudget_fst[of table sql_date today sessionIdent db] 1 2 3 4
    by (intro conjI)
qed

theorem checkBudget_session_then_day_witness:
  "checkBudget default_table iso_date ''2026-01-01'' ''s1''
      \<lparr>sessions = [\<lparr>sess_id = ''s1'', sess_label = None, sess_model = None,
                sess_started_at = ''2026-01-01T00:00:00.000Z'', sess_ended_at = None,
                sess_metadata_json = ''{}''\<rparr>],
      events = [\<lparr>ev_id = ''e1'', ev_session_id = ''s1'', ev_event_type = LLM_REQUEST,
                 ev_tool_name = None, ev_model = None, ev_prompt_chars = Some 40000,
                 ev_response_chars = None, ev_duration_ms = None,
                 ev_error_message = None, ev_metadata_json = ''{}'',
                 ev_recorded_at = ''2026-01-01T00:00:01.000Z''\<rparr>],
      budget_config = \<lparr>budget_id = 1, max_per_session_usd = 0,
                 max_per_day_usd = fl (5 / 10000), alert_threshold_pct = 80,
                 updated_at = ''2026-01-01 00:00:00''\<rparr>\<rparr>
     = (Some (DailyBudgetWarning (fl (75 / 100000)) 150 (fl (5 / 10000))),
        [QBudgetGet, QLlmChars ''s1'', QDailyLlmChars ''2026-01-01''])
   \<and> session_cost default_table
      \<lparr>sessions = [\<lparr>sess_id = ''s1'', sess_label = None, sess_model = None,
                sess_started_at = ''2026-01-01T00:00:00.000Z'', sess_ended_at = None,
                sess_metadata_json = ''{}''\<rparr>],
      events = [\<lparr>ev_id = ''e1'', ev_session_id = ''s1'', ev_event_type = LLM_REQUEST,
                 ev_tool_name = None, ev_model = None, ev_prompt_chars = Some 64000,
                 ev_response_chars = None, ev_duration_ms = None,
                 ev_error_message = None, ev_metadata_json = ''{}'',
                 ev_recorded_at = ''2026-01-01T00:00:01.000Z''\<rparr>],
      budget_config = \<lparr>budget_id = 1, max_per_session_usd = fl (15 / 10000),
                 max_per_day_usd = fl (15 / 10000), alert_threshold_pct = 80,
                 updated_at = ''2026-01-01 00:00:00''\<rparr>\<rparr> ''s1'' = fl (12 / 10000)
   \<and> fl (12 / 10000) < fmul (fl (15 / 10000)) (fdiv 80 100)
   \<and> checkBudget default_table iso_date ''2026-01-01'' ''s1''
      \<lparr>sessions = [\<lparr>sess_id = ''s1'', sess_label = None, sess_model = None,
                sess_started_at = ''2026-01-01T00:00:00.000Z'', sess_ended_at = None,
                sess_metadata_json = ''{}''\<rparr>],
      events = [\<lparr>ev_id = ''e1'', ev_session_id = ''s1'', ev_event_type = LLM_REQUEST,
                 ev_tool_name = None, ev_model = None, ev_prompt_chars = Some 64000,
                 ev_response_chars = None, ev_duration_ms = None,
                 ev_error_message = None, ev_metadata_json = ''{}'',
                 ev_recorded_at = ''2026-01-01T00:00:01.000Z''\<rparr>],
      budget_config = \<lparr>budget_id = 1, max_per_session_usd = fl (15 / 10000),
                 max_per_day_usd = fl (15 / 10000), alert_threshold_pct = 80,
                 updated_at = ''2026-01-01 00:00:00''\<rparr>\<rparr>
     = (None, [QBudgetGet, QLlmChars ''s1'', QDailyLlmChars ''2026-01-01''])"
proof -
  have full: "xs = [QBudgetGet, QLlmChars ''s1'', QDailyLlmChars ''2026-01-01'']"
    if q: "QDailyLlmChars ''2026-01-01'' \<in> set xs"
      and p: "prefix xs [QBudgetGet, QLlmChars ''s1'', QDailyLlmChars ''2026-01-01'']" for xs
  proof -
    from p obtain zs where
      zs: "[QBudgetGet, QLlmChars ''s1'', QDailyLlmChars ''2026-01-01''] = xs @ zs"
      by (auto simp: prefix_def)
    have "zs = []"
    proof (rule ccontr)
      assume "zs \<noteq> []"
      then obtain ys z where "zs = ys @ [z]" by (cases zs rule: rev_cases) auto
      with zs have "[QBudgetGet, QLlmChars ''s1''] = xs @ ys" by simp
      then have "set xs \<subseteq> set [QBudgetGet, QLlmChars ''s1'']"
        by (metis set_append Un_upper1)
      with q show False by auto
    qed
    with zs show ?thesis by simp
  qed
  have first: "checkBudget default_table iso_date ''2026-01-01'' ''s1''
      \<lparr>sessions = [\<lparr>sess_id = ''s1'', sess_label = None, sess_model = None,
                sess_started_at = ''2026-01-01T00:00:00.000Z'', sess_ended_at = None,
                sess_metadata_json = ''{}''\<rparr>],
      events = [\<lparr>ev_id = ''e1'', ev_session_id = ''s1'', ev_event_type = LLM_REQUEST,
                 ev_tool_name = None, ev_model = None, ev_prompt_chars = Some 40000,
                 ev_response_chars = None, ev_duration_ms = None,
                 ev_error_message = None, ev_metadata_json = ''{}'',
                 ev_recorded_at = ''2026-01-01T00:00:01.000Z''\<rparr>],
      budget_config = \<lparr>budget_id = 1, max_per_session_usd = 0,
                 max_per_day_usd = fl (5 / 10000), alert_threshold_pct = 80,
                 updated_at = ''2026-01-01 00:00:00''\<rparr>\<rparr>
     = (Some (DailyBudgetWarning (fl (75 / 100000)) 150 (fl (5 / 10000))),
        [QBudgetGet, QLlmChars ''s1'', QDailyLlmChars ''2026-01-01''])"
  proof -
    define db where "db = \<lparr>sessions = [\<lparr>sess_id = ''s1'', sess_label = None, sess_model = None,
                sess_started_at = ''2026-01-01T00:00:00.000Z'', sess_ended_at = None,
                sess_metadata_json = ''{}''\<rparr>],
      events = [\<lparr>ev_id = ''e1'', ev_session_id = ''s1'', ev_event_type = LLM_REQUEST,
                 ev_tool_name = None, ev_model = None, ev_prompt_chars = Some 40000,
                 ev_response_chars = None, ev_duration_ms = None,
                 ev_error_message = None, ev_metadata_json = ''{}'',
                 ev_recorded_at = ''2026-01-01T00:00:01.000Z''\<rparr>],
      budget_config = \<lparr>budget_id = 1, max_per_session_usd = 0,
                 max_per_day_usd = fl (5 / 10000), alert_threshold_pct = 80,
                 updated_at = ''2026-01-01 00:00:00''\<rparr>\<rparr>"
    let ?r = "checkBudget default_table iso_date ''2026-01-01'' ''s1'' db"
    note main = checkBudget_session_then_day[of default_table iso_date "''2026-01-01''" "''s1''" db]
    have caps: "max_per_session_usd (budget_config db) = 0"
      "max_per_day_usd (budget_config db) = fl (5 / 10000)"
      "alert_threshold_pct (budget_config db) = 80"
      by (simp_all add: db_def)
    have day: "dailyLlmChars iso_date db ''2026-01-01''
        = \<lparr>promptChars = 40000, responseChars = 0\<rparr>"
      by (simp add: dailyLlmChars_def sessions_getById_def iso_date_def nullish_def db_def)
    have dc: "daily_cost default_table iso_date db ''2026-01-01'' = fl (75 / 100000)"
      unfolding daily_cost_def day using cost_40000_day by simp
    have ns: "\<not> session_threshold_crossed default_table db ''s1''"
      using main unfolding caps by simp
    have d: "day_threshold_crossed default_table iso_date db ''2026-01-01''"
      using main threshold_5(1,2) unfolding dc caps fmul_def fdiv_def by blast
    have f: "fst ?r = Some (DailyBudgetWarning (fl (75 / 100000)) 150 (fl (5 / 10000)))"
      using main ns d unfolding dc caps threshold_5(3) by simp
    have q: "QDailyLlmChars ''2026-01-01'' \<in> set (snd ?r)"
      using main ns threshold_5(1) unfolding caps by blast
    have p: "prefix (snd ?r) [QBudgetGet, QLlmChars ''s1'', QDailyLlmChars ''2026-01-01'']"
      using main by blast
    have "?r = (Some (DailyBudgetWarning (fl (75 / 100000)) 150 (fl (5 / 10000))),
          [QBudgetGet, QLlmChars ''s1'', QDailyLlmChars ''2026-01-01''])"
      using f full[OF q p] by (simp add: prod_eq_iff)
    then show ?thesis
      unfolding db_def .
  qed
  have second: "session_cost default_table
      \<lparr>sessions = [\<lparr>sess_id = ''s1'', sess_label = None, sess_model = None,
                sess_started_at = ''2026-01-01T00:00:00.000Z'', sess_ended_at = None,
                sess_metadata_json = ''{}''\<rparr>],
      events = [\<lparr>ev_id = ''e1'', ev_session_id = ''s1'', ev_event_type = LLM_REQUEST,
                 ev_tool_name = None, ev_model = None, ev_prompt_chars = Some 64000,
                 ev_response_chars = None, ev_duration_ms = None,
                 ev_error_message = None, ev_metadata_json = ''{}'',
                 ev_recorded_at = ''2026-01-01T00:00:01.000Z''\<rparr>],
      budget_config = \<lparr>budget_id = 1, max_per_session_usd = fl (15 / 10000),
                 max_per_day_usd = fl (15 / 10000), alert_threshold_pct = 80,
                 updated_at = ''2026-01-01 00:00:00''\<rparr>\<rparr> ''s1'' = fl (12 / 10000)
   \<and> checkBudget default_table iso_date ''2026-01-01'' ''s1''
      \<lparr>sessions = [\<lparr>sess_id = ''s1'', sess_label = None, sess_model = None,
                sess_started_at = ''2026-01-01T00:00:00.000Z'', sess_ended_at = None,
                sess_metadata_json = ''{}''\<rparr>],
      events = [\<lparr>ev_id = ''e1'', ev_session_id = ''s1'', ev_event_type = LLM_REQUEST,
                 ev_tool_name = None, ev_model = None, ev_prompt_chars = Some 64000,
                 ev_response_chars = None, ev_duration_ms = None,
                 ev_error_message = None, ev_metadata_json = ''{}'',
                 ev_recorded_at = ''2026-01-01T00:00:01.000Z''\<rparr>],
      budget_config = \<lparr>budget_id = 1, max_per_session_usd = fl (15 / 10000),
                 max_per_day_usd = fl (15 / 10000), alert_threshold_pct = 80,
                 updated_at = ''2026-01-01 00:00:00''\<rparr>\<rparr>
     = (None, [QBudgetGet, QLlmChars ''s1'', QDailyLlmChars ''2026-01-01''])"
  proof -
    define db where "db = \<lparr>sessions = [\<lparr>sess_id = ''s1'', sess_label = None, sess_model = None,
                sess_started_at = ''2026-01-01T00:00:00.000Z'', sess_ended_at = None,
                sess_metadata_json = ''{}''\<rparr>],
      events = [\<lparr>ev_id = ''e1'', ev_session_id = ''s1'', ev_event_type = LLM_REQUEST,
                 ev_tool_name = None, ev_model = None, ev_prompt_chars = Some 64000,
                 ev_response_chars = None, ev_duration_ms = None,
                 ev_error_message = None, ev_metadata_json = ''{}'',
                 ev_recorded_at = ''2026-01-01T00:00:01.000Z''\<rparr>],
      budget_config = \<lparr>budget_id = 1, max_per_session_usd = fl (15 / 10000),
                 max_per_day_usd = fl (15 / 10000), alert_threshold_pct = 80,
                 updated_at = ''2026-01-01 00:00:00''\<rparr>\<rparr>"
    let ?r = "checkBudget default_table iso_date ''2026-01-01'' ''s1'' db"
    note main = checkBudget_session_then_day[of default_table iso_date "''2026-01-01''" "''s1''" db]
    have caps: "max_per_session_usd (budget_config db) = fl (15 / 10000)"
      "max_per_day_usd (budget_config db) = fl (15 / 10000)"
      "alert_threshold_pct (budget_config db) = 80"
      by (simp_all add: db_def)
    have rows: "llmChars db ''s1''
        = [\<lparr>prompt_chars = Some 64000, response_chars = None, model = None\<rparr>]"
      by (simp add: llmChars_def db_def)
    have day: "dailyLlmChars iso_date db ''2026-01-01''
        = \<lparr>promptChars = 64000, responseChars = 0\<rparr>"
      by (simp add: dailyLlmChars_def sessions_getById_def iso_date_def nullish_def db_def)
    have sc: "session_cost default_table db ''s1'' = fl (12 / 10000)"
      unfolding session_cost_def rows by (rule cost_64000)
    have dc: "daily_cost default_table iso_date db ''2026-01-01'' = fl (12 / 10000)"
      unfolding daily_cost_def day using cost_64000_day by simp
    have below: "\<not> fl (fl (15 / 10000) * fl (80 / 100)) \<le> fl (12 / 10000)"
      using threshold_15(2) unfolding fmul_def fdiv_def by (simp only: not_le)
    have ns: "\<not> session_threshold_crossed default_table db ''s1''"
      using main below unfolding sc caps by blast
    have nd: "\<not> day_threshold_crossed default_table iso_date db ''2026-01-01''"
      using main below unfolding dc caps by blast
    have f: "fst ?r = None"
      using main ns nd by simp
    have q: "QDailyLlmChars ''2026-01-01'' \<in> set (snd ?r)"
      using main ns threshold_15(1) unfolding caps by blast
    have p: "prefix (snd ?r) [QBudgetGet, QLlmChars ''s1'', QDailyLlmChars ''2026-01-01'']"
      using main by blast
    have "session_cost default_table db ''s1'' = fl (12 / 10000)
       \<and> ?r = (None, [QBudgetGet, QLlmChars ''s1'', QDailyLlmChars ''2026-01-01''])"
      using sc f full[OF q p] by (simp add: prod_eq_iff)
    then show ?thesis
      unfolding db_def .
  qed
  show ?thesis
    using first second threshold_15(2) by (intro conjI) blast+
qed

end
